theory Spec2Isabelle
  imports Main "HOL-Library.Word"
begin

unbundle bit_operations_syntax

section \<open>Runtime values\<close>

text \<open>
  The interpreter keeps every runtime datum in a Go \<^verbatim>\<open>interface{}\<close> (type \<^verbatim>\<open>value\<close>).
  The model has one constructor per dynamic type the operator kernel switches on.
  The host is the 64-bit one (\<^verbatim>\<open>int\<close>, \<^verbatim>\<open>uint\<close> and \<^verbatim>\<open>uintptr\<close> are 64 bits wide);
  floating-point payloads are kept as bit patterns and the IEEE operations of the host
  are parameters of the kernels that need them.
\<close>

type_synonym i8 = "8 word"
type_synonym i16 = "16 word"
type_synonym i32 = "32 word"
type_synonym i64 = "64 word"

text \<open>\<^verbatim>\<open>reflect.Kind\<close>, in the order of its constants (prefixed with K).\<close>

datatype kind =
    KInvalid | KBool
  | KInt | KInt8 | KInt16 | KInt32 | KInt64
  | KUint | KUint8 | KUint16 | KUint32 | KUint64 | KUintptr
  | KFloat32 | KFloat64 | KComplex64 | KComplex128
  | KArray | KChan | KFunc | KInterface | KMap | KPtr | KSlice | KString | KStruct | KUnsafePointer

fun kind_num :: "kind \<Rightarrow> nat" where
  "kind_num KInvalid = 0" | "kind_num KBool = 1"
| "kind_num KInt = 2" | "kind_num KInt8 = 3" | "kind_num KInt16 = 4" | "kind_num KInt32 = 5"
| "kind_num KInt64 = 6"
| "kind_num KUint = 7" | "kind_num KUint8 = 8" | "kind_num KUint16 = 9" | "kind_num KUint32 = 10"
| "kind_num KUint64 = 11" | "kind_num KUintptr = 12"
| "kind_num KFloat32 = 13" | "kind_num KFloat64 = 14"
| "kind_num KComplex64 = 15" | "kind_num KComplex128 = 16"
| "kind_num KArray = 17" | "kind_num KChan = 18" | "kind_num KFunc = 19"
| "kind_num KInterface = 20" | "kind_num KMap = 21" | "kind_num KPtr = 22"
| "kind_num KSlice = 23" | "kind_num KString = 24" | "kind_num KStruct = 25"
| "kind_num KUnsafePointer = 26"

text \<open>
  The error values that reach the target program through \<^verbatim>\<open>recover\<close>, by their Go type:
  \<^verbatim>\<open>runtimeError\<close>, \<^verbatim>\<open>plainError\<close>, a \<^verbatim>\<open>runtime.Error\<close> of the host, \<^verbatim>\<open>*reflect.ValueError\<close>.
\<close>

datatype errkind = E_runtimeError | E_plainError | E_hostRuntimeError | E_ValueError

text \<open>The built-ins of \<^verbatim>\<open>callBuiltin\<close> that the model covers.\<close>

datatype builtin = B_print | B_println | B_panic | B_recover

datatype "value" =
    VNil                               \<comment> \<open>the nil interface\<close>
  | VBool bool
  | VInt i64 | VInt8 i8 | VInt16 i16 | VInt32 i32 | VInt64 i64
  | VUint i64 | VUint8 i8 | VUint16 i16 | VUint32 i32 | VUint64 i64 | VUintptr i64
  | VFloat32 i32 | VFloat64 i64
  | VComplex64 i32 i32 | VComplex128 i64 i64
  | VString string
  | VSlice "value list" nat            \<comment> \<open>the cells up to the capacity, and the length\<close>
  | VArray "value list"
  | VPtr "nat option"                  \<comment> \<open>a heap address, or the nil pointer\<close>
  | VStruct "(string \<times> value) list"
  | VTuple "value list"
  | VFunction string                   \<comment> \<open>\<^verbatim>\<open>*ssa.Function\<close>\<close>
  | VBuiltin builtin                   \<comment> \<open>\<^verbatim>\<open>*ssa.Builtin\<close>\<close>
  | VError errkind string              \<comment> \<open>an error value, with its message\<close>
  | VNamed string "value"              \<comment> \<open>a value of a defined type, with its representation\<close>

type_synonym heap = "nat \<rightharpoonup> value"

fun kindOf :: "value \<Rightarrow> kind" where
  "kindOf VNil = KInvalid"
| "kindOf (VBool _) = KBool"
| "kindOf (VInt _) = KInt" | "kindOf (VInt8 _) = KInt8" | "kindOf (VInt16 _) = KInt16"
| "kindOf (VInt32 _) = KInt32" | "kindOf (VInt64 _) = KInt64"
| "kindOf (VUint _) = KUint" | "kindOf (VUint8 _) = KUint8" | "kindOf (VUint16 _) = KUint16"
| "kindOf (VUint32 _) = KUint32" | "kindOf (VUint64 _) = KUint64"
| "kindOf (VUintptr _) = KUintptr"
| "kindOf (VFloat32 _) = KFloat32" | "kindOf (VFloat64 _) = KFloat64"
| "kindOf (VComplex64 _ _) = KComplex64" | "kindOf (VComplex128 _ _) = KComplex128"
| "kindOf (VString _) = KString"
| "kindOf (VSlice _ _) = KSlice"
| "kindOf (VArray _) = KArray"
| "kindOf (VPtr _) = KPtr"
| "kindOf (VStruct _) = KStruct"
| "kindOf (VTuple _) = KSlice"
| "kindOf (VFunction _) = KPtr"
| "kindOf (VBuiltin _) = KPtr"
| "kindOf (VError E_ValueError _) = KPtr"
| "kindOf (VError _ _) = KString"
| "kindOf (VNamed _ v) = kindOf v"

text \<open>The representation below a defined type: what \<^verbatim>\<open>reflect\<close> reads.\<close>

fun repr :: "value \<Rightarrow> value" where
  "repr (VNamed _ v) = repr v"
| "repr v = v"

text \<open>\<^verbatim>\<open>reflect.Value.Int\<close> and \<^verbatim>\<open>reflect.Value.Uint\<close>, widened to 64 bits.\<close>

fun rInt :: "value \<Rightarrow> i64" where
  "rInt (VInt w) = w" | "rInt (VInt8 w) = scast w" | "rInt (VInt16 w) = scast w"
| "rInt (VInt32 w) = scast w" | "rInt (VInt64 w) = w"
| "rInt (VNamed _ v) = rInt v"
| "rInt _ = 0"

fun rUint :: "value \<Rightarrow> i64" where
  "rUint (VUint w) = w" | "rUint (VUint8 w) = ucast w" | "rUint (VUint16 w) = ucast w"
| "rUint (VUint32 w) = ucast w" | "rUint (VUint64 w) = w" | "rUint (VUintptr w) = w"
| "rUint (VNamed _ v) = rUint v"
| "rUint _ = 0"

subsection \<open>Formatting\<close>

fun showNat :: "nat \<Rightarrow> string" where
  "showNat n = (if n < 10 then [''0123456789'' ! n]
                else showNat (n div 10) @ [''0123456789'' ! (n mod 10)])"

declare showNat.simps [simp del]

definition showInt :: "int \<Rightarrow> string" where
  "showInt i = (if i < 0 then CHR ''-'' # showNat (nat (- i)) else showNat (nat i))"

text \<open>The verb \<^verbatim>\<open>%T\<close> of \<^verbatim>\<open>fmt\<close>: the name of the dynamic type.\<close>

fun typeName :: "value \<Rightarrow> string" where
  "typeName VNil = ''<nil>''"
| "typeName (VBool _) = ''bool''"
| "typeName (VInt _) = ''int''" | "typeName (VInt8 _) = ''int8''"
| "typeName (VInt16 _) = ''int16''" | "typeName (VInt32 _) = ''int32''"
| "typeName (VInt64 _) = ''int64''"
| "typeName (VUint _) = ''uint''" | "typeName (VUint8 _) = ''uint8''"
| "typeName (VUint16 _) = ''uint16''" | "typeName (VUint32 _) = ''uint32''"
| "typeName (VUint64 _) = ''uint64''" | "typeName (VUintptr _) = ''uintptr''"
| "typeName (VFloat32 _) = ''float32''" | "typeName (VFloat64 _) = ''float64''"
| "typeName (VComplex64 _ _) = ''complex64''" | "typeName (VComplex128 _ _) = ''complex128''"
| "typeName (VString _) = ''string''"
| "typeName (VSlice _ _) = ''slice''"
| "typeName (VArray _) = ''array''"
| "typeName (VPtr _) = ''pointer''"
| "typeName (VStruct _) = ''struct''"
| "typeName (VTuple _) = ''gossa.tuple''"
| "typeName (VFunction _) = ''*ssa.Function''"
| "typeName (VBuiltin _) = ''*ssa.Builtin''"
| "typeName (VError E_runtimeError _) = ''gossa.runtimeError''"
| "typeName (VError E_plainError _) = ''gossa.plainError''"
| "typeName (VError E_hostRuntimeError _) = ''runtime.Error''"
| "typeName (VError E_ValueError _) = ''*reflect.ValueError''"
| "typeName (VNamed n _) = n"

section \<open>Host panics\<close>

text \<open>
  Every failure of the interpreter is a Go \<^verbatim>\<open>panic\<close>. The payloads are the ones the
  top-level handlers and \<^verbatim>\<open>doRecover\<close> distinguish by type.
\<close>

datatype hpanic =
    TargetPanic "value"        \<comment> \<open>\<^verbatim>\<open>targetPanic{v}\<close>\<close>
  | ExitPanic int              \<comment> \<open>\<^verbatim>\<open>exitPanic(code)\<close>\<close>
  | RuntimeError string        \<comment> \<open>\<^verbatim>\<open>runtimeError(msg)\<close>: has the method \<^verbatim>\<open>RuntimeError()\<close>\<close>
  | PlainError string          \<comment> \<open>\<^verbatim>\<open>plainError(msg)\<close>\<close>
  | HostRuntimeError string    \<comment> \<open>a \<^verbatim>\<open>runtime.Error\<close> of the host: failed \<^verbatim>\<open>x.(T)\<close>, nil dereference\<close>
  | PanicString string         \<comment> \<open>\<^verbatim>\<open>panic\<close> of a plain string\<close>
  | ValueError string          \<comment> \<open>\<^verbatim>\<open>*reflect.ValueError\<close>\<close>
  | PanicOther string          \<comment> \<open>any other payload, such as an \<^verbatim>\<open>error\<close> of \<^verbatim>\<open>fmt.Errorf\<close>\<close>

text \<open>The interface \<^verbatim>\<open>runtime.Error\<close>: an error with the method \<^verbatim>\<open>RuntimeError()\<close>.\<close>

fun is_runtime_Error :: "hpanic \<Rightarrow> bool" where
  "is_runtime_Error (RuntimeError _) = True"
| "is_runtime_Error (HostRuntimeError _) = True"
| "is_runtime_Error _ = False"

text \<open>\<^verbatim>\<open>func (e runtimeError) Error() string\<close>\<close>

definition runtimeError_Error :: "string \<Rightarrow> string" where
  "runtimeError_Error e = ''runtime error: '' @ e"

type_synonym 'a res = "hpanic + 'a"

definition bind :: "'a res \<Rightarrow> ('a \<Rightarrow> 'b res) \<Rightarrow> 'b res" where
  "bind m f = (case m of Inl e \<Rightarrow> Inl e | Inr x \<Rightarrow> f x)"



section \<open>SSA operands and frames\<close>

text \<open>The types of \<^verbatim>\<open>go/types\<close> that the compiler inspects.\<close>

datatype gotype =
    TBasic kind
  | TNamed string gotype                   \<comment> \<open>a defined type and its underlying type\<close>
  | TPointer gotype
  | TStruct "(string \<times> gotype) list"       \<comment> \<open>the fields, by name, in order\<close>
  | TSlice gotype
  | TArray nat gotype
  | TInterface "string list"               \<comment> \<open>the method names\<close>

fun Underlying :: "gotype \<Rightarrow> gotype" where
  "Underlying (TNamed _ t) = Underlying t"
| "Underlying t = t"

text \<open>\<^verbatim>\<open>preToType(t).Kind()\<close>: the kind of the host type of a Go type.\<close>

fun typeKind :: "gotype \<Rightarrow> kind" where
  "typeKind (TBasic k) = k"
| "typeKind (TNamed _ t) = typeKind t"
| "typeKind (TPointer _) = KPtr"
| "typeKind (TStruct _) = KStruct"
| "typeKind (TSlice _) = KSlice"
| "typeKind (TArray _ _) = KArray"
| "typeKind (TInterface _) = KInterface"

text \<open>
  An operand (\<^verbatim>\<open>ssa.Value\<close>). The compiler looks at the instruction that defines an
  operand in three places (\<^verbatim>\<open>*ssa.Alloc\<close>, \<^verbatim>\<open>*ssa.Convert\<close>, \<^verbatim>\<open>*ssa.FieldAddr\<close>), so
  these are constructors of their own; every other instruction result is \<open>SInstr\<close>.
  Constants are the \<^verbatim>\<open>constValue\<close> operands that \<^verbatim>\<open>visitor.function\<close> puts in place
  of each \<^verbatim>\<open>*ssa.Const\<close>.
\<close>

datatype ssa_value =
    SNil                                   \<comment> \<open>no operand\<close>
  | SConst "value"
  | SFunction string
  | SBuiltin builtin
  | SGlobal string
  | SParam string gotype
  | SAlloc string gotype
  | SConvert string ssa_value gotype       \<comment> \<open>name, \<^verbatim>\<open>X\<close>, result type\<close>
  | SFieldAddr string ssa_value nat        \<comment> \<open>name, \<^verbatim>\<open>X\<close>, \<^verbatim>\<open>Field\<close>\<close>
  | SInstr string gotype

fun typeOfValue :: "value \<Rightarrow> gotype" where
  "typeOfValue (VNamed n v) = TNamed n (typeOfValue v)"
| "typeOfValue v = TBasic (kindOf v)"

fun fieldType :: "gotype \<Rightarrow> nat \<Rightarrow> gotype" where
  "fieldType (TPointer t) i =
     (case Underlying t of
        TStruct fs \<Rightarrow> (if i < length fs then TPointer (snd (fs ! i)) else TBasic KInvalid)
      | _ \<Rightarrow> TBasic KInvalid)"
| "fieldType (TNamed _ t) i = fieldType t i"
| "fieldType _ _ = TBasic KInvalid"

fun ssa_Type :: "ssa_value \<Rightarrow> gotype" where
  "ssa_Type SNil = TBasic KInvalid"
| "ssa_Type (SConst v) = typeOfValue v"
| "ssa_Type (SFunction _) = TBasic KFunc"
| "ssa_Type (SBuiltin _) = TBasic KFunc"
| "ssa_Type (SGlobal _) = TPointer (TBasic KInvalid)"
| "ssa_Type (SParam _ t) = t"
| "ssa_Type (SAlloc _ t) = t"
| "ssa_Type (SConvert _ _ t) = t"
| "ssa_Type (SFieldAddr _ x i) = fieldType (ssa_Type x) i"
| "ssa_Type (SInstr _ t) = t"

text \<open>\<^verbatim>\<open>type deferred struct\<close>; the chain of \<^verbatim>\<open>tail\<close> pointers is the list in the frame.\<close>

record deferred =
  fn :: "value"
  args :: "value list"
  ssaArgs :: "ssa_value list"

text \<open>
  \<^verbatim>\<open>type frame struct\<close>. Frames live in a table and \<open>caller\<close> is an index into it;
  \<open>pfn\<close> is the key of the compiled function; \<open>defers\<close> is the chain of \<^verbatim>\<open>tail\<close>
  pointers, head first.
\<close>

record frame =
  caller :: "nat option"
  pfn :: string
  block :: "nat option"
  prevBlock :: "nat option"
  env :: "ssa_value \<rightharpoonup> value"
  stack :: "value list"
  defers :: "deferred list"
  result :: "value"
  panicking :: bool
  panic :: "hpanic option"

text \<open>
  \<^verbatim>\<open>func (fr *frame) get(key ssa.Value) value\<close>. No native package is installed in the
  model (\<^verbatim>\<open>installed\<close> and \<^verbatim>\<open>externValues\<close> find nothing); \<open>globals\<close> is \<^verbatim>\<open>fr.i.globals\<close>.
\<close>

fun ssa_Name :: "ssa_value \<Rightarrow> string" where
  "ssa_Name SNil = ''nil''"
| "ssa_Name (SConst v) = ''const''"
| "ssa_Name (SFunction n) = n"
| "ssa_Name (SBuiltin b) =
     (case b of B_print \<Rightarrow> ''print'' | B_println \<Rightarrow> ''println''
      | B_panic \<Rightarrow> ''panic'' | B_recover \<Rightarrow> ''recover'')"
| "ssa_Name (SGlobal n) = n"
| "ssa_Name (SParam n _) = n"
| "ssa_Name (SAlloc n _) = n"
| "ssa_Name (SConvert n _ _) = n"
| "ssa_Name (SFieldAddr n _ _) = n"
| "ssa_Name (SInstr n _) = n"

definition env_get :: "frame \<Rightarrow> ssa_value \<Rightarrow> value res" where
  "env_get fr key =
     (case env fr key of
        Some r \<Rightarrow> Inr r
      | None \<Rightarrow> Inl (PanicString (''get: no value for '' @ ssa_Name key)))"

fun get :: "(string \<rightharpoonup> value) \<Rightarrow> frame \<Rightarrow> ssa_value \<Rightarrow> value res" where
  "get globals fr SNil = Inr VNil"
| "get globals fr (SFunction f) = Inr (VFunction f)"
| "get globals fr (SBuiltin b) = Inr (VBuiltin b)"
| "get globals fr (SConst v) = Inr v"
| "get globals fr (SGlobal g) =
     (case globals g of Some r \<Rightarrow> Inr r | None \<Rightarrow> env_get fr (SGlobal g))"
| "get globals fr key = env_get fr key"

text \<open>The literal \<^verbatim>\<open>&frame{i: i, caller: caller, pfn: ...}\<close> of the call engine.\<close>

definition init_frame :: "nat option \<Rightarrow> string \<Rightarrow> frame" where
  "init_frame c f =
     \<lparr>caller = c, pfn = f, block = None, prevBlock = None, env = Map.empty, stack = [],
      defers = [], result = VNil, panicking = False, panic = None\<rparr>"

section \<open>Integer conversions of operands\<close>

text \<open>
  \<^verbatim>\<open>func asInt(x value) int\<close>. The result is the Go \<^verbatim>\<open>int\<close> read as a mathematical
  integer; conversions from the unsigned 64-bit types reinterpret the bits.
\<close>

fun asInt :: "value \<Rightarrow> int res" where
  "asInt (VInt x) = Inr (sint x)"
| "asInt (VInt8 x) = Inr (sint x)"
| "asInt (VInt16 x) = Inr (sint x)"
| "asInt (VInt32 x) = Inr (sint x)"
| "asInt (VInt64 x) = Inr (sint x)"
| "asInt (VUint x) = Inr (sint x)"
| "asInt (VUint8 x) = Inr (uint x)"
| "asInt (VUint16 x) = Inr (uint x)"
| "asInt (VUint32 x) = Inr (uint x)"
| "asInt (VUint64 x) = Inr (sint x)"
| "asInt (VUintptr x) = Inr (sint x)"
| "asInt x =
     (if kindOf x \<in> {KInt, KInt8, KInt16, KInt32, KInt64} then Inr (sint (rInt x))
      else if kindOf x \<in> {KUint, KUint8, KUint16, KUint32, KUint64, KUintptr}
           then Inr (sint (rUint x))
      else Inl (PanicString (''cannot convert '' @ typeName x @ '' to int'')))"


section \<open>Slicing\<close>

text \<open>The operations of \<^verbatim>\<open>reflect.Value\<close> that \<^verbatim>\<open>slice\<close> uses.\<close>

fun Elem :: "heap \<Rightarrow> value \<Rightarrow> value" where
  "Elem hp (VPtr (Some a)) = (case hp a of Some v \<Rightarrow> v | None \<Rightarrow> VNil)"
| "Elem hp (VNamed _ v) = Elem hp v"
| "Elem hp _ = VNil"

fun rLen :: "value \<Rightarrow> int" where
  "rLen (VString s) = int (length s)"
| "rLen (VSlice cells n) = int n"
| "rLen (VArray cells) = int (length cells)"
| "rLen (VNamed _ v) = rLen v"
| "rLen _ = 0"

fun rCap :: "value \<Rightarrow> int" where
  "rCap (VSlice cells n) = int (length cells)"
| "rCap (VArray cells) = int (length cells)"
| "rCap (VNamed _ v) = rCap v"
| "rCap _ = 0"

text \<open>\<^verbatim>\<open>v.Slice(i, j)\<close> on a string, with the bounds check of \<^verbatim>\<open>reflect\<close>.\<close>

fun rSlice :: "value \<Rightarrow> int \<Rightarrow> int \<Rightarrow> value res" where
  "rSlice (VString s) i j =
     (if i < 0 \<or> j < i \<or> j > int (length s)
      then Inl (PanicString ''reflect.Value.Slice: string slice index out of bounds'')
      else Inr (VString (take (nat (j - i)) (drop (nat i) s))))"
| "rSlice (VNamed n v) i j =
     (case rSlice v i j of Inl e \<Rightarrow> Inl e | Inr r \<Rightarrow> Inr (VNamed n r))"
| "rSlice _ i j = Inl (ValueError ''reflect.Value.Slice'')"

text \<open>
  \<^verbatim>\<open>v.Slice3(i, j, k)\<close> on a slice or on an array; an array must be addressable, which
  it is when it was reached through a pointer.
\<close>

fun rSlice3 :: "bool \<Rightarrow> value \<Rightarrow> int \<Rightarrow> int \<Rightarrow> int \<Rightarrow> value res" where
  "rSlice3 addressable (VSlice cells n) i j k =
     (if i < 0 \<or> j < i \<or> k < j \<or> k > int (length cells)
      then Inl (PanicString ''reflect.Value.Slice3: slice index out of bounds'')
      else Inr (VSlice (take (nat (k - i)) (drop (nat i) cells)) (nat (j - i))))"
| "rSlice3 addressable (VArray cells) i j k =
     (if \<not> addressable
      then Inl (PanicString ''reflect.Value.Slice3: slice of unaddressable array'')
      else if i < 0 \<or> j < i \<or> k < j \<or> k > int (length cells)
      then Inl (PanicString ''reflect.Value.Slice3: slice index out of bounds'')
      else Inr (VSlice (take (nat (k - i)) (drop (nat i) cells)) (nat (j - i))))"
| "rSlice3 addressable (VNamed n v) i j k =
     (case rSlice3 addressable v i j k of Inl e \<Rightarrow> Inl e | Inr r \<Rightarrow> Inr (VNamed n r))"
| "rSlice3 addressable _ i j k = Inl (ValueError ''reflect.Value.Slice3'')"

fun is_Alloc :: "ssa_value \<Rightarrow> bool" where
  "is_Alloc (SAlloc _ _) = True"
| "is_Alloc _ = False"

text \<open>
  The bounds checks of \<^verbatim>\<open>slice\<close>, in the order of the source: the \<^verbatim>\<open>makeslice\<close> branch,
  the three-index branch, the two-index branch.
\<close>

definition slice_bounds ::
  "bool \<Rightarrow> bool \<Rightarrow> kind \<Rightarrow> int \<Rightarrow> int \<Rightarrow> int \<Rightarrow> int \<Rightarrow> unit res" where
  "slice_bounds makeslice slice3 knd l h m Cap =
     (if makeslice then
        (if h < 0 then Inl (RuntimeError ''makeslice: len out of range'')
         else if h > m then Inl (RuntimeError ''makeslice: cap out of range'')
         else Inr ())
      else if slice3 then
        (if m < 0 then
           Inl (RuntimeError (''slice bounds out of range [::'' @ showInt m @ '']''))
         else if m > Cap then
           (if knd = KSlice then
              Inl (RuntimeError (''slice bounds out of range [::'' @ showInt m
                                  @ ''] with capacity '' @ showInt Cap))
            else
              Inl (RuntimeError (''slice bounds out of range [::'' @ showInt m
                                  @ ''] with length '' @ showInt Cap)))
         else if h < 0 then
           Inl (RuntimeError (''slice bounds out of range [:'' @ showInt h @ '':]''))
         else if h > m then
           Inl (RuntimeError (''slice bounds out of range [:'' @ showInt h @ '':''
                               @ showInt m @ '']''))
         else if l < 0 then
           Inl (RuntimeError (''slice bounds out of range ['' @ showInt l @ ''::]''))
         else if l > h then
           Inl (RuntimeError (''slice bounds out of range ['' @ showInt l @ '':''
                               @ showInt h @ '':]''))
         else Inr ())
      else
        (if h < 0 then
           Inl (RuntimeError (''slice bounds out of range [:'' @ showInt h @ '']''))
         else if h > Cap then
           (if knd = KSlice then
              Inl (RuntimeError (''slice bounds out of range [:'' @ showInt h
                                  @ ''] with capacity '' @ showInt Cap))
            else
              Inl (RuntimeError (''slice bounds out of range [:'' @ showInt h
                                  @ ''] with length '' @ showInt Cap)))
         else if l < 0 then
           Inl (RuntimeError (''slice bounds out of range ['' @ showInt l @ '':]''))
         else if l > h then
           Inl (RuntimeError (''slice bounds out of range ['' @ showInt l @ '':''
                               @ showInt h @ '']''))
         else Inr ()))"

text \<open>
  \<^verbatim>\<open>func slice(fr *frame, instr *ssa.Slice) value\<close>; the operands of the instruction
  are \<open>iX\<close>, \<open>iLow\<close>, \<open>iHigh\<close> and \<open>iMax\<close>.
\<close>

definition slice ::
  "(string \<rightharpoonup> value) \<Rightarrow> heap \<Rightarrow> frame
     \<Rightarrow> ssa_value \<Rightarrow> ssa_value \<Rightarrow> ssa_value \<Rightarrow> ssa_value \<Rightarrow> value res" where
  "slice globals hp fr iX iLow iHigh iMax =
     (let makeslice = is_Alloc iX in
      bind (get globals fr iX) (\<lambda>x.
      bind (get globals fr iLow) (\<lambda>lo.
      bind (get globals fr iHigh) (\<lambda>hi.
      bind (get globals fr iMax) (\<lambda>mx.
      let v = (if kindOf x = KPtr then Elem hp x else x);
          Len = (if kindOf v \<in> {KString, KSlice, KArray} then rLen v else 0);
          Cap = (if kindOf v = KString then rLen v
                 else if kindOf v \<in> {KSlice, KArray} then rCap v else 0)
      in
      bind (if lo \<noteq> VNil then asInt lo else Inr 0) (\<lambda>l.
      bind (if hi \<noteq> VNil then asInt hi else Inr Len) (\<lambda>h.
      bind (if mx \<noteq> VNil then asInt mx else Inr Cap) (\<lambda>m.
      let slice3 = (mx \<noteq> VNil) in
      bind (slice_bounds makeslice slice3 (kindOf v) l h m Cap) (\<lambda>_.
        if kindOf v = KString then
          (if l = h then rSlice v 0 0 else rSlice v l h)
        else if kindOf v \<in> {KSlice, KArray} then
          rSlice3 (kindOf x = KPtr) v l h m
        else Inl (PanicString (''slice: unexpected X type: '' @ typeName x)))))))))))"

section \<open>Compiled functions\<close>

text \<open>\<^verbatim>\<open>kNext\<close>, \<^verbatim>\<open>kReturn\<close>, \<^verbatim>\<open>kJump\<close>\<close>

datatype continuation = kNext | kReturn | kJump

text \<open>
  An executor is a closure \<^verbatim>\<open>func(fr *frame, k *int)\<close>. Most closures read and write
  their own frame only, and read the heap: they are \<open>XFrame\<close>, a function from the heap
  and the frame to the new frame and the value left in \<^verbatim>\<open>*k\<close>, or to the panic. The closures that reach the heap, the
  block table of the function or the call engine are constructors of their own, holding
  what the closure captured.
\<close>

datatype exec =
    XFrame "heap \<Rightarrow> frame \<Rightarrow> (frame \<times> continuation) res"
  | XStore nat nat                       \<comment> \<open>\<^verbatim>\<open>*ssa.Store\<close>: the registers \<open>ia\<close> and \<open>iv\<close>\<close>
  | XRunDefers                           \<comment> \<open>\<^verbatim>\<open>*ssa.RunDefers\<close>\<close>
  | XJump                                \<comment> \<open>\<^verbatim>\<open>*ssa.Jump\<close>\<close>
  | XIf nat                              \<comment> \<open>\<^verbatim>\<open>*ssa.If\<close>: the register \<open>ic\<close>\<close>

record FuncBlock =
  Index :: nat
  Instrs :: "exec list"
  Preds :: "nat list"
  Succs :: "nat list"

text \<open>
  \<^verbatim>\<open>type Function struct\<close>. The blocks are listed by index; \<open>MainBlock\<close> and \<open>Recover\<close>
  are indices into the list.
\<close>

record Function =
  Fn :: string
  Blocks :: "FuncBlock list"
  MainBlock :: "nat option"
  Recover :: "nat option"
  valueIndex :: "ssa_value \<rightharpoonup> nat"
  valueCount :: nat
  "values" :: "value list"

text \<open>
  \<^verbatim>\<open>func (p *Function) getIndex(v ssa.Value) int\<close>; \<^verbatim>\<open>globalToValue\<close> is the lookup in the
  globals of the interpreter.
\<close>

definition getIndex :: "(string \<rightharpoonup> value) \<Rightarrow> Function \<Rightarrow> ssa_value \<Rightarrow> Function \<times> nat" where
  "getIndex globals p v =
     (case valueIndex p v of
        Some i \<Rightarrow> (p, i)
      | None \<Rightarrow>
          (let i = valueCount p in
           (p\<lparr>valueIndex := (valueIndex p)(v \<mapsto> i),
              valueCount := i + 1,
              values := values p @
                [case v of
                   SConst c \<Rightarrow> c
                 | SGlobal g \<Rightarrow> (case globals g of Some r \<Rightarrow> r | None \<Rightarrow> VNil)
                 | _ \<Rightarrow> VNil]\<rparr>, i)))"

text \<open>\<^verbatim>\<open>fr.reg(i)\<close> and \<^verbatim>\<open>fr.setReg(i, v)\<close>; an index out of range is a panic of the host.\<close>

definition reg :: "frame \<Rightarrow> nat \<Rightarrow> value res" where
  "reg r i = (if i < length (stack r) then Inr (stack r ! i)
              else Inl (HostRuntimeError ''index out of range''))"

definition setReg :: "frame \<Rightarrow> nat \<Rightarrow> value \<Rightarrow> frame res" where
  "setReg r i v = (if i < length (stack r) then Inr (r\<lparr>stack := (stack r)[i := v]\<rparr>)
                   else Inl (HostRuntimeError ''index out of range''))"

section \<open>The operator kernel\<close>

text \<open>\<^verbatim>\<open>token.Token\<close>: the operators of \<^verbatim>\<open>ssa.BinOp\<close>.\<close>

datatype token =
    T_ADD | T_SUB | T_MUL | T_QUO | T_REM
  | T_AND | T_OR | T_XOR | T_AND_NOT | T_SHL | T_SHR
  | T_LSS | T_LEQ | T_EQL | T_NEQ | T_GTR | T_GEQ

text \<open>The floating-point additions of the host, on bit patterns, and the two roundings.\<close>

record fops =
  fadd32 :: "i32 \<Rightarrow> i32 \<Rightarrow> i32"
  fadd64 :: "i64 \<Rightarrow> i64 \<Rightarrow> i64"
  f32to64 :: "i32 \<Rightarrow> i64"
  f64to32 :: "i64 \<Rightarrow> i32"

text \<open>
  A failed type assertion \<^verbatim>\<open>y.(T)\<close> without comma-ok: the host panics with a
  \<^verbatim>\<open>*runtime.TypeAssertionError\<close>.
\<close>

definition assertion_failed :: "value \<Rightarrow> string \<Rightarrow> hpanic" where
  "assertion_failed y T =
     HostRuntimeError (''interface conversion: interface {} is ''
        @ (if y = VNil then ''nil'' else typeName y) @ '', not '' @ T)"

text \<open>
  \<^verbatim>\<open>r := reflect.New(vx.Type()).Elem(); r.SetInt(n)\<close> and its siblings: a value of the
  type of \<open>x\<close> with a new payload, cut to the width of the type.
\<close>

fun setInt :: "value \<Rightarrow> i64 \<Rightarrow> value" where
  "setInt (VInt _) n = VInt n"
| "setInt (VInt8 _) n = VInt8 (ucast n)"
| "setInt (VInt16 _) n = VInt16 (ucast n)"
| "setInt (VInt32 _) n = VInt32 (ucast n)"
| "setInt (VInt64 _) n = VInt64 n"
| "setInt (VNamed t v) n = VNamed t (setInt v n)"
| "setInt v n = v"

fun setUint :: "value \<Rightarrow> i64 \<Rightarrow> value" where
  "setUint (VUint _) n = VUint n"
| "setUint (VUint8 _) n = VUint8 (ucast n)"
| "setUint (VUint16 _) n = VUint16 (ucast n)"
| "setUint (VUint32 _) n = VUint32 (ucast n)"
| "setUint (VUint64 _) n = VUint64 n"
| "setUint (VUintptr _) n = VUintptr n"
| "setUint (VNamed t v) n = VNamed t (setUint v n)"
| "setUint v n = v"

text \<open>\<^verbatim>\<open>vx.Float()\<close>, \<^verbatim>\<open>vx.Complex()\<close>, \<^verbatim>\<open>vx.String()\<close> and the matching setters.\<close>

fun rFloat :: "fops \<Rightarrow> value \<Rightarrow> i64" where
  "rFloat fl (VFloat32 a) = f32to64 fl a"
| "rFloat fl (VFloat64 a) = a"
| "rFloat fl (VNamed _ v) = rFloat fl v"
| "rFloat fl _ = 0"

fun setFloat :: "fops \<Rightarrow> value \<Rightarrow> i64 \<Rightarrow> value" where
  "setFloat fl (VFloat32 _) a = VFloat32 (f64to32 fl a)"
| "setFloat fl (VFloat64 _) a = VFloat64 a"
| "setFloat fl (VNamed t v) a = VNamed t (setFloat fl v a)"
| "setFloat fl v a = v"

fun rComplex :: "fops \<Rightarrow> value \<Rightarrow> i64 \<times> i64" where
  "rComplex fl (VComplex64 a b) = (f32to64 fl a, f32to64 fl b)"
| "rComplex fl (VComplex128 a b) = (a, b)"
| "rComplex fl (VNamed _ v) = rComplex fl v"
| "rComplex fl _ = (0, 0)"

fun setComplex :: "fops \<Rightarrow> value \<Rightarrow> i64 \<times> i64 \<Rightarrow> value" where
  "setComplex fl (VComplex64 _ _) c = VComplex64 (f64to32 fl (fst c)) (f64to32 fl (snd c))"
| "setComplex fl (VComplex128 _ _) c = VComplex128 (fst c) (snd c)"
| "setComplex fl (VNamed t v) c = VNamed t (setComplex fl v c)"
| "setComplex fl v c = v"

fun rString :: "value \<Rightarrow> string" where
  "rString (VString s) = s"
| "rString (VNamed _ v) = rString v"
| "rString _ = []"

fun setString :: "value \<Rightarrow> string \<Rightarrow> value" where
  "setString (VString _) s = VString s"
| "setString (VNamed t v) s = VNamed t (setString v s)"
| "setString v s = v"

text \<open>
  \<^verbatim>\<open>func opADD(x, y value) value\<close>: one case per predeclared type, then the path through
  \<^verbatim>\<open>reflect\<close> for the defined types.
\<close>

fun opADD :: "fops \<Rightarrow> value \<Rightarrow> value \<Rightarrow> value res" where
  "opADD fl (VInt a) y =
     (case y of VInt b \<Rightarrow> Inr (VInt (a + b)) | _ \<Rightarrow> Inl (assertion_failed y ''int''))"
| "opADD fl (VInt8 a) y =
     (case y of VInt8 b \<Rightarrow> Inr (VInt8 (a + b)) | _ \<Rightarrow> Inl (assertion_failed y ''int8''))"
| "opADD fl (VInt16 a) y =
     (case y of VInt16 b \<Rightarrow> Inr (VInt16 (a + b)) | _ \<Rightarrow> Inl (assertion_failed y ''int16''))"
| "opADD fl (VInt32 a) y =
     (case y of VInt32 b \<Rightarrow> Inr (VInt32 (a + b)) | _ \<Rightarrow> Inl (assertion_failed y ''int32''))"
| "opADD fl (VInt64 a) y =
     (case y of VInt64 b \<Rightarrow> Inr (VInt64 (a + b)) | _ \<Rightarrow> Inl (assertion_failed y ''int64''))"
| "opADD fl (VUint a) y =
     (case y of VUint b \<Rightarrow> Inr (VUint (a + b)) | _ \<Rightarrow> Inl (assertion_failed y ''uint''))"
| "opADD fl (VUint8 a) y =
     (case y of VUint8 b \<Rightarrow> Inr (VUint8 (a + b)) | _ \<Rightarrow> Inl (assertion_failed y ''uint8''))"
| "opADD fl (VUint16 a) y =
     (case y of VUint16 b \<Rightarrow> Inr (VUint16 (a + b)) | _ \<Rightarrow> Inl (assertion_failed y ''uint16''))"
| "opADD fl (VUint32 a) y =
     (case y of VUint32 b \<Rightarrow> Inr (VUint32 (a + b)) | _ \<Rightarrow> Inl (assertion_failed y ''uint32''))"
| "opADD fl (VUint64 a) y =
     (case y of VUint64 b \<Rightarrow> Inr (VUint64 (a + b)) | _ \<Rightarrow> Inl (assertion_failed y ''uint64''))"
| "opADD fl (VUintptr a) y =
     (case y of VUintptr b \<Rightarrow> Inr (VUintptr (a + b))
      | _ \<Rightarrow> Inl (assertion_failed y ''uintptr''))"
| "opADD fl (VFloat32 a) y =
     (case y of VFloat32 b \<Rightarrow> Inr (VFloat32 (fadd32 fl a b))
      | _ \<Rightarrow> Inl (assertion_failed y ''float32''))"
| "opADD fl (VFloat64 a) y =
     (case y of VFloat64 b \<Rightarrow> Inr (VFloat64 (fadd64 fl a b))
      | _ \<Rightarrow> Inl (assertion_failed y ''float64''))"
| "opADD fl (VComplex64 a a') y =
     (case y of VComplex64 b b' \<Rightarrow> Inr (VComplex64 (fadd32 fl a b) (fadd32 fl a' b'))
      | _ \<Rightarrow> Inl (assertion_failed y ''complex64''))"
| "opADD fl (VComplex128 a a') y =
     (case y of VComplex128 b b' \<Rightarrow> Inr (VComplex128 (fadd64 fl a b) (fadd64 fl a' b'))
      | _ \<Rightarrow> Inl (assertion_failed y ''complex128''))"
| "opADD fl (VString a) y =
     (case y of VString b \<Rightarrow> Inr (VString (a @ b)) | _ \<Rightarrow> Inl (assertion_failed y ''string''))"
| "opADD fl x y =
     (if kindOf x = kindOf y then
        (if kindOf x = KInvalid then Inl (ValueError ''reflect.Value.Type'')
         else if kindOf x \<in> {KInt, KInt8, KInt16, KInt32, KInt64}
           then Inr (setInt x (rInt x + rInt y))
         else if kindOf x \<in> {KUint, KUint8, KUint16, KUint32, KUint64, KUintptr}
           then Inr (setUint x (rUint x + rUint y))
         else if kindOf x \<in> {KFloat32, KFloat64}
           then Inr (setFloat fl x (fadd64 fl (rFloat fl x) (rFloat fl y)))
         else if kindOf x \<in> {KComplex64, KComplex128}
           then Inr (setComplex fl x
                  (fadd64 fl (fst (rComplex fl x)) (fst (rComplex fl y)),
                   fadd64 fl (snd (rComplex fl x)) (snd (rComplex fl y))))
         else if kindOf x = KString
           then Inr (setString x (rString x @ rString y))
         else Inl (PanicString (''invalid binary op: '' @ typeName x @ '' + '' @ typeName y)))
      else Inl (PanicString (''invalid binary op: '' @ typeName x @ '' + '' @ typeName y)))"

text \<open>
  \<^verbatim>\<open>func asUint64(x value) uint64\<close>. In the default branch the source calls \<^verbatim>\<open>v.Uint()\<close>
  for the unsigned kinds and drops the result, so every value that is not of a
  predeclared unsigned type ends in the panic.
\<close>

fun asUint64 :: "value \<Rightarrow> i64 res" where
  "asUint64 (VUint x) = Inr x"
| "asUint64 (VUint8 x) = Inr (ucast x)"
| "asUint64 (VUint16 x) = Inr (ucast x)"
| "asUint64 (VUint32 x) = Inr (ucast x)"
| "asUint64 (VUint64 x) = Inr x"
| "asUint64 (VUintptr x) = Inr x"
| "asUint64 x = Inl (PanicString (''cannot convert '' @ typeName x @ '' to uint64''))"

text \<open>
  \<^verbatim>\<open>func opSHL(x, _y value) value\<close> and \<^verbatim>\<open>func opSHR(x, _y value) value\<close>. A Go shift by
  a count of the width or more gives 0 (or the sign, for \<^verbatim>\<open>>>\<close> on a signed type), as
  \<open>push_bit\<close>, \<open>drop_bit\<close> and \<open>signed_drop_bit\<close> do on words.
\<close>

definition opSHL :: "value \<Rightarrow> value \<Rightarrow> value res" where
  "opSHL x y' =
     bind (asUint64 y') (\<lambda>y.
       case x of
         VInt a \<Rightarrow> Inr (VInt (push_bit (unat y) a))
       | VInt8 a \<Rightarrow> Inr (VInt8 (push_bit (unat y) a))
       | VInt16 a \<Rightarrow> Inr (VInt16 (push_bit (unat y) a))
       | VInt32 a \<Rightarrow> Inr (VInt32 (push_bit (unat y) a))
       | VInt64 a \<Rightarrow> Inr (VInt64 (push_bit (unat y) a))
       | VUint a \<Rightarrow> Inr (VUint (push_bit (unat y) a))
       | VUint8 a \<Rightarrow> Inr (VUint8 (push_bit (unat y) a))
       | VUint16 a \<Rightarrow> Inr (VUint16 (push_bit (unat y) a))
       | VUint32 a \<Rightarrow> Inr (VUint32 (push_bit (unat y) a))
       | VUint64 a \<Rightarrow> Inr (VUint64 (push_bit (unat y) a))
       | VUintptr a \<Rightarrow> Inr (VUintptr (push_bit (unat y) a))
       | _ \<Rightarrow>
           (if kindOf x = KInvalid then Inl (ValueError ''reflect.Value.Type'')
            else if kindOf x \<in> {KInt, KInt8, KInt16, KInt32, KInt64}
              then Inr (setInt x (push_bit (unat y) (rInt x)))
            else if kindOf x \<in> {KUint, KUint8, KUint16, KUint32, KUint64, KUintptr}
              then Inr (setUint x (push_bit (unat y) (rUint x)))
            else Inl (PanicString (''invalid binary op: '' @ typeName x @ '' << uint64''))))"

definition opSHR :: "value \<Rightarrow> value \<Rightarrow> value res" where
  "opSHR x y' =
     bind (asUint64 y') (\<lambda>y.
       case x of
         VInt a \<Rightarrow> Inr (VInt (signed_drop_bit (unat y) a))
       | VInt8 a \<Rightarrow> Inr (VInt8 (signed_drop_bit (unat y) a))
       | VInt16 a \<Rightarrow> Inr (VInt16 (signed_drop_bit (unat y) a))
       | VInt32 a \<Rightarrow> Inr (VInt32 (signed_drop_bit (unat y) a))
       | VInt64 a \<Rightarrow> Inr (VInt64 (signed_drop_bit (unat y) a))
       | VUint a \<Rightarrow> Inr (VUint (drop_bit (unat y) a))
       | VUint8 a \<Rightarrow> Inr (VUint8 (drop_bit (unat y) a))
       | VUint16 a \<Rightarrow> Inr (VUint16 (drop_bit (unat y) a))
       | VUint32 a \<Rightarrow> Inr (VUint32 (drop_bit (unat y) a))
       | VUint64 a \<Rightarrow> Inr (VUint64 (drop_bit (unat y) a))
       | VUintptr a \<Rightarrow> Inr (VUintptr (drop_bit (unat y) a))
       | _ \<Rightarrow>
           (if kindOf x = KInvalid then Inl (ValueError ''reflect.Value.Type'')
            else if kindOf x \<in> {KInt, KInt8, KInt16, KInt32, KInt64}
              then Inr (setInt x (signed_drop_bit (unat y) (rInt x)))
            else if kindOf x \<in> {KUint, KUint8, KUint16, KUint32, KUint64, KUintptr}
              then Inr (setUint x (drop_bit (unat y) (rUint x)))
            else Inl (PanicString (''invalid binary op: '' @ typeName x @ '' >> uint64''))))"

section \<open>Instructions and their executors\<close>

text \<open>
  The instructions of \<^verbatim>\<open>go/ssa\<close> that the model compiles. A value-defining instruction
  carries its name and type; as an operand it is \<open>SInstr name type\<close>. \<open>IDefer\<close> holds the
  \<^verbatim>\<open>Value\<close> and the \<^verbatim>\<open>Args\<close> of a call in function mode.
\<close>

datatype instr =
    IBinOp string gotype token ssa_value ssa_value
  | IMakeSlice string gotype ssa_value ssa_value
  | ISlice string gotype ssa_value ssa_value ssa_value ssa_value
  | ITypeAssert string gotype ssa_value gotype bool
  | IStore ssa_value ssa_value
  | IDefer ssa_value "ssa_value list"
  | IRunDefers
  | IPanic ssa_value
  | IReturn "ssa_value list"
  | IJump
  | IIf ssa_value

fun instr_value :: "instr \<Rightarrow> ssa_value option" where
  "instr_value (IBinOp n t _ _ _) = Some (SInstr n t)"
| "instr_value (IMakeSlice n t _ _) = Some (SInstr n t)"
| "instr_value (ISlice n t _ _ _ _) = Some (SInstr n t)"
| "instr_value (ITypeAssert n t _ _ _) = Some (SInstr n t)"
| "instr_value _ = None"

text \<open>
  What the executors take from outside \<^verbatim>\<open>src/\<close>: the floating-point unit, the kernels of the operators other than \<^verbatim>\<open>+\<close>, \<^verbatim>\<open><<\<close> and \<^verbatim>\<open>>>\<close>,
  the type relations of \<^verbatim>\<open>reflect\<close> and \<^verbatim>\<open>go/types\<close> that \<^verbatim>\<open>typeAssert\<close> asks for
  (\<open>MissingMethod\<close> is \<^verbatim>\<open>findType\<close> followed by \<^verbatim>\<open>types.MissingMethod\<close>; \<open>differentScopes\<close>
  is the test for two named types of one name and package declared in different scopes),
  and the printers \<^verbatim>\<open>toString\<close> and \<^verbatim>\<open>toInterface\<close>.
\<close>

record host =
  flops :: fops
  kernels :: "token \<Rightarrow> value \<Rightarrow> value \<Rightarrow> value res"
  AssignableTo :: "gotype \<Rightarrow> gotype \<Rightarrow> bool"
  MissingMethod :: "gotype \<Rightarrow> gotype \<Rightarrow> string option"
  differentScopes :: "gotype \<Rightarrow> gotype \<Rightarrow> bool"
  Convert :: "gotype \<Rightarrow> value \<Rightarrow> value"
  toString :: "value \<Rightarrow> string"
  toInterface :: "value \<Rightarrow> string"

text \<open>
  \<^verbatim>\<open>const intSize = 32 << (^uint(0) >> 63)\<close> and the \<^verbatim>\<open>init\<close> of \<^verbatim>\<open>maxMemLen\<close>, for a
  host whose \<^verbatim>\<open>uint\<close> has \<open>w\<close> bits: \<^verbatim>\<open>^uint(0)\<close> is \<open>2 ^ w - 1\<close>.
\<close>

definition intSize :: "nat \<Rightarrow> nat" where
  "intSize w = push_bit (drop_bit 63 (2 ^ w - 1 :: nat)) 32"

definition init_maxMemLen :: "nat \<Rightarrow> int" where
  "init_maxMemLen w = (if intSize w = 32 then 2 ^ 31 - 1 else 2 ^ 59)"

subsection \<open>BinOp\<close>

text \<open>The closures of \<^verbatim>\<open>token.ADD\<close>, \<^verbatim>\<open>token.SUB\<close> and \<^verbatim>\<open>token.LSS\<close>: registers, asserted to \<^verbatim>\<open>int\<close>.\<close>

definition assert_int :: "value \<Rightarrow> i64 res" where
  "assert_int v = (case v of VInt a \<Rightarrow> Inr a | _ \<Rightarrow> Inl (assertion_failed v ''int''))"

definition exec_ADD :: "nat \<Rightarrow> nat \<Rightarrow> nat \<Rightarrow> frame \<Rightarrow> (frame \<times> continuation) res" where
  "exec_ADD i ix iy r =
     bind (reg r ix) (\<lambda>x. bind (assert_int x) (\<lambda>a.
     bind (reg r iy) (\<lambda>y. bind (assert_int y) (\<lambda>b.
     bind (setReg r i (VInt (a + b))) (\<lambda>r'. Inr (r', kNext))))))"

definition exec_SUB :: "nat \<Rightarrow> nat \<Rightarrow> nat \<Rightarrow> frame \<Rightarrow> (frame \<times> continuation) res" where
  "exec_SUB i ix iy r =
     bind (reg r ix) (\<lambda>x. bind (assert_int x) (\<lambda>a.
     bind (reg r iy) (\<lambda>y. bind (assert_int y) (\<lambda>b.
     bind (setReg r i (VInt (a - b))) (\<lambda>r'. Inr (r', kNext))))))"

definition exec_LSS :: "nat \<Rightarrow> nat \<Rightarrow> nat \<Rightarrow> frame \<Rightarrow> (frame \<times> continuation) res" where
  "exec_LSS i ix iy r =
     bind (reg r ix) (\<lambda>x. bind (assert_int x) (\<lambda>a.
     bind (reg r iy) (\<lambda>y. bind (assert_int y) (\<lambda>b.
     bind (setReg r i (VBool (a <s b))) (\<lambda>r'. Inr (r', kNext))))))"

text \<open>The closures \<^verbatim>\<open>fr.env[instr] = opXXX(fr.get(instr.X), fr.get(instr.Y))\<close>.\<close>

definition exec_kernel ::
  "(string \<rightharpoonup> value) \<Rightarrow> (value \<Rightarrow> value \<Rightarrow> value res) \<Rightarrow> ssa_value \<Rightarrow> ssa_value \<Rightarrow> ssa_value
     \<Rightarrow> frame \<Rightarrow> (frame \<times> continuation) res" where
  "exec_kernel globals op iv iX iY r =
     bind (get globals r iX) (\<lambda>x.
     bind (get globals r iY) (\<lambda>y.
     bind (op x y) (\<lambda>v. Inr (r\<lparr>env := (env r)(iv \<mapsto> v)\<rparr>, kNext))))"

text \<open>
  The closure of a shift whose count is an \<^verbatim>\<open>*ssa.Convert\<close> of a signed integer: the
  operand \<open>cX\<close> of the conversion is read through \<^verbatim>\<open>reflect\<close> and tested first.
\<close>

definition rInt_checked :: "value \<Rightarrow> i64 res" where
  "rInt_checked v =
     (if kindOf v \<in> {KInt, KInt8, KInt16, KInt32, KInt64} then Inr (rInt v)
      else Inl (ValueError ''reflect.Value.Int''))"

definition exec_shift_checked ::
  "(string \<rightharpoonup> value) \<Rightarrow> (value \<Rightarrow> value \<Rightarrow> value res) \<Rightarrow> ssa_value \<Rightarrow> ssa_value
     \<Rightarrow> ssa_value \<Rightarrow> ssa_value \<Rightarrow> frame \<Rightarrow> (frame \<times> continuation) res" where
  "exec_shift_checked globals op cX iv iX iY r =
     bind (get globals r cX) (\<lambda>c.
     bind (rInt_checked c) (\<lambda>n.
       if n <s 0 then Inl (RuntimeError ''negative shift amount'')
       else exec_kernel globals op iv iX iY r))"

definition makeInstr_shift ::
  "(string \<rightharpoonup> value) \<Rightarrow> (value \<Rightarrow> value \<Rightarrow> value res) \<Rightarrow> ssa_value \<Rightarrow> ssa_value
     \<Rightarrow> ssa_value \<Rightarrow> exec" where
  "makeInstr_shift globals op iv iX iY =
     (case iY of
        SConvert _ cX _ \<Rightarrow>
          (let xk = typeKind (ssa_Type cX) in
           if kind_num KInt \<le> kind_num xk \<and> kind_num xk \<le> kind_num KInt64
           then XFrame (\<lambda>hp. exec_shift_checked globals op cX iv iX iY)
           else XFrame (\<lambda>hp. exec_kernel globals op iv iX iY))
      | _ \<Rightarrow> XFrame (\<lambda>hp. exec_kernel globals op iv iX iY))"

definition makeInstr_BinOp ::
  "host \<Rightarrow> (string \<rightharpoonup> value) \<Rightarrow> Function \<Rightarrow> string \<Rightarrow> gotype \<Rightarrow> token
     \<Rightarrow> ssa_value \<Rightarrow> ssa_value \<Rightarrow> Function \<times> exec" where
  "makeInstr_BinOp h globals p0 n t op iX iY =
     (let iv = SInstr n t;
          (p1, i) = getIndex globals p0 iv;
          (p2, ix) = getIndex globals p1 iX;
          (p3, iy) = getIndex globals p2 iY
      in (p3,
          case op of
            T_ADD \<Rightarrow> XFrame (\<lambda>hp. exec_ADD i ix iy)
          | T_SUB \<Rightarrow> XFrame (\<lambda>hp. exec_SUB i ix iy)
          | T_SHL \<Rightarrow> makeInstr_shift globals opSHL iv iX iY
          | T_SHR \<Rightarrow> makeInstr_shift globals opSHR iv iX iY
          | T_LSS \<Rightarrow> XFrame (\<lambda>hp. exec_LSS i ix iy)
          | _ \<Rightarrow> XFrame (\<lambda>hp. exec_kernel globals (kernels h op) iv iX iY)))"

subsection \<open>MakeSlice and Slice\<close>

fun zero :: "gotype \<Rightarrow> value" where
  "zero (TBasic k) =
     (case k of
        KBool \<Rightarrow> VBool False
      | KInt \<Rightarrow> VInt 0 | KInt8 \<Rightarrow> VInt8 0 | KInt16 \<Rightarrow> VInt16 0 | KInt32 \<Rightarrow> VInt32 0
      | KInt64 \<Rightarrow> VInt64 0
      | KUint \<Rightarrow> VUint 0 | KUint8 \<Rightarrow> VUint8 0 | KUint16 \<Rightarrow> VUint16 0 | KUint32 \<Rightarrow> VUint32 0
      | KUint64 \<Rightarrow> VUint64 0 | KUintptr \<Rightarrow> VUintptr 0
      | KFloat32 \<Rightarrow> VFloat32 0 | KFloat64 \<Rightarrow> VFloat64 0
      | KComplex64 \<Rightarrow> VComplex64 0 0 | KComplex128 \<Rightarrow> VComplex128 0 0
      | KString \<Rightarrow> VString []
      | _ \<Rightarrow> VNil)"
| "zero (TNamed n t) = (if typeKind t = KInterface then VNil else VNamed n (zero t))"
| "zero (TPointer _) = VPtr None"
| "zero (TStruct fs) = VStruct (map (\<lambda>f. (fst f, zero (snd f))) fs)"
| "zero (TSlice _) = VSlice [] 0"
| "zero (TArray n t) = VArray (replicate n (zero t))"
| "zero (TInterface _) = VNil"

text \<open>\<^verbatim>\<open>reflect.MakeSlice(typ, len, cap)\<close>, with its own panics.\<close>

definition rMakeSlice :: "gotype \<Rightarrow> int \<Rightarrow> int \<Rightarrow> value res" where
  "rMakeSlice typ n c =
     (case Underlying typ of
        TSlice el \<Rightarrow>
          (if n < 0 then Inl (PanicString ''reflect.MakeSlice: negative len'')
           else if c < 0 then Inl (PanicString ''reflect.MakeSlice: negative cap'')
           else if n > c then Inl (PanicString ''reflect.MakeSlice: len > cap'')
           else Inr (case typ of
                       TNamed t _ \<Rightarrow> VNamed t (VSlice (replicate (nat c) (zero el)) (nat n))
                     | _ \<Rightarrow> VSlice (replicate (nat c) (zero el)) (nat n)))
      | _ \<Rightarrow> Inl (PanicString ''reflect.MakeSlice of non-slice type''))"

text \<open>The closure of \<^verbatim>\<open>*ssa.MakeSlice\<close>; \<open>maxMemLen\<close> is the package variable.\<close>

definition exec_MakeSlice ::
  "int \<Rightarrow> (string \<rightharpoonup> value) \<Rightarrow> string \<Rightarrow> gotype \<Rightarrow> ssa_value \<Rightarrow> ssa_value
     \<Rightarrow> frame \<Rightarrow> (frame \<times> continuation) res" where
  "exec_MakeSlice maxMemLen globals n t iLen iCap r =
     bind (get globals r iLen) (\<lambda>lv. bind (asInt lv) (\<lambda>Len.
       if Len < 0 \<or> Len \<ge> maxMemLen then Inl (RuntimeError ''makeslice: len out of range'')
       else
     bind (get globals r iCap) (\<lambda>cv. bind (asInt cv) (\<lambda>Cap.
       if Cap < 0 \<or> Cap \<ge> maxMemLen then Inl (RuntimeError ''makeslice: cap out of range'')
       else
     bind (rMakeSlice t Len Cap) (\<lambda>s.
       Inr (r\<lparr>env := (env r)(SInstr n t \<mapsto> s)\<rparr>, kNext))))))"

definition exec_Slice ::
  "(string \<rightharpoonup> value) \<Rightarrow> heap \<Rightarrow> string \<Rightarrow> gotype \<Rightarrow> ssa_value \<Rightarrow> ssa_value \<Rightarrow> ssa_value
     \<Rightarrow> ssa_value \<Rightarrow> frame \<Rightarrow> (frame \<times> continuation) res" where
  "exec_Slice globals hp n t iX iLow iHigh iMax r =
     bind (slice globals hp r iX iLow iHigh iMax) (\<lambda>s.
       Inr (r\<lparr>env := (env r)(SInstr n t \<mapsto> s)\<rparr>, kNext))"

subsection \<open>TypeAssert\<close>

fun kindString :: "kind \<Rightarrow> string" where
  "kindString KInvalid = ''invalid''" | "kindString KBool = ''bool''"
| "kindString KInt = ''int''" | "kindString KInt8 = ''int8''" | "kindString KInt16 = ''int16''"
| "kindString KInt32 = ''int32''" | "kindString KInt64 = ''int64''"
| "kindString KUint = ''uint''" | "kindString KUint8 = ''uint8''"
| "kindString KUint16 = ''uint16''" | "kindString KUint32 = ''uint32''"
| "kindString KUint64 = ''uint64''" | "kindString KUintptr = ''uintptr''"
| "kindString KFloat32 = ''float32''" | "kindString KFloat64 = ''float64''"
| "kindString KComplex64 = ''complex64''" | "kindString KComplex128 = ''complex128''"
| "kindString KArray = ''array''" | "kindString KChan = ''chan''" | "kindString KFunc = ''func''"
| "kindString KInterface = ''interface''" | "kindString KMap = ''map''"
| "kindString KPtr = ''ptr''" | "kindString KSlice = ''slice''"
| "kindString KString = ''string''" | "kindString KStruct = ''struct''"
| "kindString KUnsafePointer = ''unsafe.Pointer''"

text \<open>The verb \<^verbatim>\<open>%v\<close> on a type.\<close>

fun typeString :: "gotype \<Rightarrow> string" where
  "typeString (TBasic k) = kindString k"
| "typeString (TNamed n _) = n"
| "typeString (TPointer t) = ''*'' @ typeString t"
| "typeString (TStruct fs) = ''struct {...}''"
| "typeString (TSlice t) = ''[]'' @ typeString t"
| "typeString (TArray n t) = ''['' @ showNat n @ '']'' @ typeString t"
| "typeString (TInterface ms) = ''interface {...}''"

fun is_TInterface :: "gotype \<Rightarrow> bool" where
  "is_TInterface (TInterface _) = True"
| "is_TInterface _ = False"

text \<open>
  \<^verbatim>\<open>func typeAssert(i *Interp, instr *ssa.TypeAssert, iv interface{}) value\<close>, with
  \<open>xT\<close> for \<^verbatim>\<open>instr.X.Type()\<close>, \<open>aT\<close> for \<^verbatim>\<open>instr.AssertedType\<close> and its host type, and
  \<open>commaOk\<close> for \<^verbatim>\<open>instr.CommaOk\<close>. The variable \<^verbatim>\<open>err\<close> of the source is the left side
  of \<open>outcome\<close>.
\<close>

definition typeAssert :: "host \<Rightarrow> gotype \<Rightarrow> gotype \<Rightarrow> bool \<Rightarrow> value \<Rightarrow> value res" where
  "typeAssert h xT aT commaOk iv =
     (let typ = aT;
          outcome =
            (if iv = VNil then
               Inl (PlainError (''interface conversion: interface is nil, not ''
                                 @ typeString typ))
             else
               (let rt = typeOfValue iv in
                if typ = rt then Inr iv
                else if \<not> AssignableTo h rt typ then
                  Inl (if is_TInterface (Underlying aT) then
                         (case MissingMethod h rt aT of
                            Some meth \<Rightarrow>
                              RuntimeError (''interface conversion: '' @ typeString rt
                                @ '' is not '' @ typeString aT @ '': missing method '' @ meth)
                          | None \<Rightarrow>
                              RuntimeError (''interface conversion: '' @ typeString xT
                                @ '' is '' @ typeString rt @ '', not '' @ typeString typ))
                       else if differentScopes h typ rt then
                         RuntimeError (''interface conversion: '' @ typeString xT
                           @ '' is '' @ typeString rt @ '', not '' @ typeString typ
                           @ '' (types from different scopes)'')
                       else
                         RuntimeError (''interface conversion: '' @ typeString xT
                           @ '' is '' @ typeString rt @ '', not '' @ typeString typ))
                else Inr (Convert h typ iv)))
      in case outcome of
           Inl err \<Rightarrow> (if \<not> commaOk then Inl err else Inr (VTuple [zero typ, VBool False]))
         | Inr v \<Rightarrow> (if commaOk then Inr (VTuple [v, VBool True]) else Inr v))"

definition exec_TypeAssert ::
  "host \<Rightarrow> (string \<rightharpoonup> value) \<Rightarrow> string \<Rightarrow> gotype \<Rightarrow> ssa_value \<Rightarrow> gotype \<Rightarrow> bool
     \<Rightarrow> frame \<Rightarrow> (frame \<times> continuation) res" where
  "exec_TypeAssert h globals n t iX aT commaOk r =
     bind (get globals r iX) (\<lambda>v.
     bind (typeAssert h (ssa_Type iX) aT commaOk v) (\<lambda>s.
       Inr (r\<lparr>env := (env r)(SInstr n t \<mapsto> s)\<rparr>, kNext)))"

subsection \<open>Store\<close>

text \<open>
  The test at the head of the \<^verbatim>\<open>*ssa.Store\<close> case:
  \<^verbatim>\<open>addr.X.Type().(*types.Pointer).Elem().(*types.Struct)\<close> with the field named \<^verbatim>\<open>_\<close>.
  The first assertion has no comma-ok and panics on a type that is not a pointer type;
  the second has one, and holds for a struct type literal only.
\<close>

definition store_skipped :: "ssa_value \<Rightarrow> bool res" where
  "store_skipped iAddr =
     (case iAddr of
        SFieldAddr _ iX field \<Rightarrow>
          (case ssa_Type iX of
             TPointer el \<Rightarrow>
               (case el of
                  TStruct fs \<Rightarrow>
                    (if field < length fs then Inr (fst (fs ! field) = ''_'')
                     else Inl (HostRuntimeError ''index out of range''))
                | _ \<Rightarrow> Inr False)
           | _ \<Rightarrow> Inl (HostRuntimeError
                        ''interface conversion: types.Type is not *types.Pointer''))
      | _ \<Rightarrow> Inr False)"

text \<open>
  The closure of \<^verbatim>\<open>*ssa.Store\<close>: \<^verbatim>\<open>SetValue(x.Elem(), v)\<close> writes the cell the address
  register points to; a nil value stores the zero value of the cell.
\<close>

definition exec_Store :: "nat \<Rightarrow> nat \<Rightarrow> heap \<Rightarrow> frame \<Rightarrow> heap res" where
  "exec_Store ia iv hp r =
     bind (reg r ia) (\<lambda>x.
     bind (reg r iv) (\<lambda>val.
       case repr x of
         VPtr (Some a) \<Rightarrow>
           (case hp a of
              Some old \<Rightarrow> Inr (hp(a \<mapsto> (if val = VNil then zero (typeOfValue old) else val)))
            | None \<Rightarrow> Inl (ValueError ''reflect.Value.Set''))
       | VPtr None \<Rightarrow> Inl (ValueError ''reflect.Value.Set'')
       | _ \<Rightarrow> Inl (ValueError ''reflect.Value.Elem'')))"

subsection \<open>Defer, Panic, Return\<close>

fun get_all :: "(string \<rightharpoonup> value) \<Rightarrow> frame \<Rightarrow> ssa_value list \<Rightarrow> value list res" where
  "get_all globals r [] = Inr []"
| "get_all globals r (a # as) =
     bind (get globals r a) (\<lambda>v. bind (get_all globals r as) (\<lambda>vs. Inr (v # vs)))"

text \<open>
  \<^verbatim>\<open>func (i *Interp) prepareCall\<close> for a call in function mode; an argument that is a
  function stays the function (the source wraps it with \<^verbatim>\<open>makeFunc\<close> for the host).
\<close>

definition prepareCall ::
  "(string \<rightharpoonup> value) \<Rightarrow> frame \<Rightarrow> ssa_value \<Rightarrow> ssa_value list \<Rightarrow> (value \<times> value list) res" where
  "prepareCall globals r cValue cArgs =
     bind (get globals r cValue) (\<lambda>v.
     bind (get_all globals r cArgs) (\<lambda>vs. Inr (v, vs)))"

definition exec_Defer ::
  "(string \<rightharpoonup> value) \<Rightarrow> ssa_value \<Rightarrow> ssa_value list \<Rightarrow> frame \<Rightarrow> (frame \<times> continuation) res" where
  "exec_Defer globals cValue cArgs r =
     bind (prepareCall globals r cValue cArgs) (\<lambda>(f, as).
       Inr (r\<lparr>defers := \<lparr>fn = f, args = as, ssaArgs = cArgs\<rparr> # defers r\<rparr>, kNext))"

definition exec_Panic ::
  "(string \<rightharpoonup> value) \<Rightarrow> ssa_value \<Rightarrow> frame \<Rightarrow> (frame \<times> continuation) res" where
  "exec_Panic globals iX r = bind (get globals r iX) (\<lambda>v. Inl (TargetPanic v))"

definition exec_Return0 :: "frame \<Rightarrow> (frame \<times> continuation) res" where
  "exec_Return0 r = Inr (r\<lparr>block := None\<rparr>, kReturn)"

definition exec_Return1 :: "nat \<Rightarrow> frame \<Rightarrow> (frame \<times> continuation) res" where
  "exec_Return1 ir r =
     bind (reg r ir) (\<lambda>v. Inr (r\<lparr>result := v, block := None\<rparr>, kReturn))"

definition exec_ReturnN ::
  "(string \<rightharpoonup> value) \<Rightarrow> ssa_value list \<Rightarrow> frame \<Rightarrow> (frame \<times> continuation) res" where
  "exec_ReturnN globals rs r =
     bind (get_all globals r rs) (\<lambda>vs. Inr (r\<lparr>result := VTuple vs, block := None\<rparr>, kReturn))"

subsection \<open>makeInstr\<close>

text \<open>
  \<^verbatim>\<open>func makeInstr(interp *Interp, pfn *Function, instr ssa.Instruction)\<close>: the new state
  of the register map and the closure, \<open>None\<close> where the source returns \<^verbatim>\<open>nil\<close>. A panic
  here is a panic at compile time.
\<close>

definition makeInstr ::
  "host \<Rightarrow> int \<Rightarrow> (string \<rightharpoonup> value) \<Rightarrow> Function \<Rightarrow> instr \<Rightarrow> (Function \<times> exec option) res" where
  "makeInstr h maxMemLen globals p0 ins =
     (let p = (case instr_value ins of
                 Some v \<Rightarrow> fst (getIndex globals p0 v)
               | None \<Rightarrow> p0)
      in case ins of
        IBinOp n t op iX iY \<Rightarrow>
          (let (p', e) = makeInstr_BinOp h globals p n t op iX iY in Inr (p', Some e))
      | IMakeSlice n t iLen iCap \<Rightarrow>
          Inr (p, Some (XFrame (\<lambda>hp. exec_MakeSlice maxMemLen globals n t iLen iCap)))
      | ISlice n t iX iLow iHigh iMax \<Rightarrow>
          Inr (p, Some (XFrame (\<lambda>hp. exec_Slice globals hp n t iX iLow iHigh iMax)))
      | ITypeAssert n t iX aT commaOk \<Rightarrow>
          Inr (p, Some (XFrame (\<lambda>hp. exec_TypeAssert h globals n t iX aT commaOk)))
      | IStore iAddr iVal \<Rightarrow>
          bind (store_skipped iAddr) (\<lambda>skip.
            if skip then Inr (p, None)
            else (let (p1, ia) = getIndex globals p iAddr;
                      (p2, iv) = getIndex globals p1 iVal
                  in Inr (p2, Some (XStore ia iv))))
      | IDefer cValue cArgs \<Rightarrow> Inr (p, Some (XFrame (\<lambda>hp. exec_Defer globals cValue cArgs)))
      | IRunDefers \<Rightarrow> Inr (p, Some XRunDefers)
      | IPanic iX \<Rightarrow> Inr (p, Some (XFrame (\<lambda>hp. exec_Panic globals iX)))
      | IReturn rs \<Rightarrow>
          (case rs of
             [] \<Rightarrow> Inr (p, Some (XFrame (\<lambda>hp. exec_Return0)))
           | [r0] \<Rightarrow>
               (let (p1, ir) = getIndex globals p r0
                in Inr (p1, Some (XFrame (\<lambda>hp. exec_Return1 ir))))
           | _ \<Rightarrow> Inr (p, Some (XFrame (\<lambda>hp. exec_ReturnN globals rs))))
      | IJump \<Rightarrow> Inr (p, Some XJump)
      | IIf iCond \<Rightarrow> (let (p1, ic) = getIndex globals p iCond in Inr (p1, Some (XIf ic))))"

section \<open>Compiling a function\<close>

text \<open>
  A basic block and a function of \<^verbatim>\<open>go/ssa\<close>; a block is known by its position in
  \<open>ssaBlocks\<close>. \<open>Parent\<close> is the enclosing function of an anonymous function.
\<close>

record BasicBlock =
  bInstrs :: "instr list"
  bPreds :: "nat list"
  bSuccs :: "nat list"

record ssa_function =
  Name :: string
  Parent :: "string option"
  Params :: "ssa_value list"
  FreeVars :: "ssa_value list"
  Locals :: "ssa_value list"
  ssaBlocks :: "BasicBlock list"
  ssaRecover :: "nat option"

text \<open>The literal \<^verbatim>\<open>&Function{intp, Fn, Blocks, valueIndex}\<close> of \<^verbatim>\<open>visitor.function\<close>.\<close>

definition new_Function :: "string \<Rightarrow> Function" where
  "new_Function f =
     \<lparr>Fn = f, Blocks = [], MainBlock = None, Recover = None,
      valueIndex = Map.empty, valueCount = 0, values = []\<rparr>"

fun getIndexes :: "(string \<rightharpoonup> value) \<Rightarrow> Function \<Rightarrow> ssa_value list \<Rightarrow> Function" where
  "getIndexes globals p [] = p"
| "getIndexes globals p (v # vs) = getIndexes globals (fst (getIndex globals p v)) vs"

text \<open>The loop over the instructions of a block: a \<^verbatim>\<open>nil\<close> closure is left out.\<close>

fun compile_instrs ::
  "host \<Rightarrow> int \<Rightarrow> (string \<rightharpoonup> value) \<Rightarrow> Function \<Rightarrow> instr list \<Rightarrow> (Function \<times> exec list) res" where
  "compile_instrs h mml globals p [] = Inr (p, [])"
| "compile_instrs h mml globals p (ins # rest) =
     bind (makeInstr h mml globals p ins) (\<lambda>(p1, ifn).
     bind (compile_instrs h mml globals p1 rest) (\<lambda>(p2, es).
       Inr (p2, (case ifn of None \<Rightarrow> es | Some e \<Rightarrow> e # es))))"

fun compile_blocks ::
  "host \<Rightarrow> int \<Rightarrow> (string \<rightharpoonup> value) \<Rightarrow> Function \<Rightarrow> nat \<Rightarrow> BasicBlock list
     \<Rightarrow> (Function \<times> FuncBlock list) res" where
  "compile_blocks h mml globals p k [] = Inr (p, [])"
| "compile_blocks h mml globals p k (b # bs) =
     bind (compile_instrs h mml globals p (bInstrs b)) (\<lambda>(p1, es).
     bind (compile_blocks h mml globals p1 (Suc k) bs) (\<lambda>(p2, fbs).
       Inr (p2, \<lparr>Index = k, Instrs = es, Preds = bPreds b, Succs = bSuccs b\<rparr> # fbs)))"

text \<open>
  \<^verbatim>\<open>func (visit *visitor) function(fn *ssa.Function)\<close> for a function with a body: the
  registers of the locals, the parameters and the free variables first, then the blocks.
\<close>

definition compile_function ::
  "host \<Rightarrow> int \<Rightarrow> (string \<rightharpoonup> value) \<Rightarrow> ssa_function \<Rightarrow> Function res" where
  "compile_function h mml globals f =
     (let p0 = getIndexes globals
                 (getIndexes globals
                    (getIndexes globals (new_Function (Name f)) (Locals f))
                    (Params f))
                 (FreeVars f)
      in bind (compile_blocks h mml globals p0 0 (ssaBlocks f)) (\<lambda>(p, fbs).
           Inr (p\<lparr>Blocks := fbs,
                  MainBlock := (if ssaBlocks f = [] then None else Some 0),
                  Recover := ssaRecover f\<rparr>)))"

section \<open>The interpreter state\<close>

record mode =
  DisableRecover :: bool
  EnableTracing :: bool
  EnableDumpInstr :: bool

text \<open>
  \<^verbatim>\<open>type Interp struct\<close>, the part that does not change while the program runs: the mode,
  the globals, the functions of the program by name, the compiled functions, and the
  functions of the main package by the name \<^verbatim>\<open>mainpkg.Func\<close> finds them under.
\<close>

record Interp =
  imode :: mode
  iglobals :: "string \<rightharpoonup> value"
  prog :: "string \<rightharpoonup> ssa_function"
  funcs :: "string \<rightharpoonup> Function"
  mainpkg :: "string \<rightharpoonup> string"

text \<open>
  What changes: the frames (a frame pointer is an index), the heap with the next free
  address, the bytes written by \<^verbatim>\<open>print\<close>, and the field \<^verbatim>\<open>Interp.caller\<close>.
\<close>

record state =
  frames :: "frame list"
  heap :: heap
  nextAddr :: nat
  CapturedOutput :: string
  icaller :: "nat option"

definition alloc :: "state \<Rightarrow> value \<Rightarrow> state \<times> value" where
  "alloc st v =
     (st\<lparr>heap := (heap st)(nextAddr st \<mapsto> v), nextAddr := Suc (nextAddr st)\<rparr>,
      VPtr (Some (nextAddr st)))"

definition set_frame :: "state \<Rightarrow> nat \<Rightarrow> frame \<Rightarrow> state" where
  "set_frame st fp r = st\<lparr>frames := (frames st)[fp := r]\<rparr>"

section \<open>Recover\<close>

text \<open>What \<^verbatim>\<open>recover\<close> hands to the target program for a payload it accepts.\<close>

fun payload_value :: "hpanic \<Rightarrow> value option" where
  "payload_value (TargetPanic v) = Some v"
| "payload_value (HostRuntimeError s) = Some (VError E_hostRuntimeError s)"
| "payload_value (RuntimeError s) = Some (VError E_runtimeError s)"
| "payload_value (PanicString s) = Some (VString s)"
| "payload_value (PlainError s) = Some (VError E_plainError s)"
| "payload_value (ValueError s) = Some (VError E_ValueError s)"
| "payload_value (ExitPanic c) = None"
| "payload_value (PanicOther s) = None"

fun panicTypeName :: "hpanic option \<Rightarrow> string" where
  "panicTypeName None = ''<nil>''"
| "panicTypeName (Some (ExitPanic _)) = ''gossa.exitPanic''"
| "panicTypeName (Some (TargetPanic _)) = ''gossa.targetPanic''"
| "panicTypeName (Some (RuntimeError _)) = ''gossa.runtimeError''"
| "panicTypeName (Some (PlainError _)) = ''gossa.plainError''"
| "panicTypeName (Some (HostRuntimeError _)) = ''runtime.Error''"
| "panicTypeName (Some (PanicString _)) = ''string''"
| "panicTypeName (Some (ValueError _)) = ''*reflect.ValueError''"
| "panicTypeName (Some (PanicOther _)) = ''*errors.errorString''"

text \<open>
  \<^verbatim>\<open>func doRecover(caller *frame) value\<close>. The condition reads \<^verbatim>\<open>caller.i.mode\<close> before it
  tests \<^verbatim>\<open>caller != nil\<close>, so a nil caller is a nil dereference.
\<close>

definition doRecover :: "Interp \<Rightarrow> state \<Rightarrow> nat option \<Rightarrow> state \<times> value res" where
  "doRecover i st c =
     (case c of
        None \<Rightarrow> (st, Inl (HostRuntimeError ''invalid memory address or nil pointer dereference''))
      | Some fp \<Rightarrow>
          (if \<not> DisableRecover (imode i) \<and> \<not> panicking (frames st ! fp)
              \<and> caller (frames st ! fp) \<noteq> None
              \<and> panicking (frames st ! the (caller (frames st ! fp)))
           then
             (let cc = the (caller (frames st ! fp));
                  p = panic (frames st ! cc);
                  st' = set_frame st cc ((frames st ! cc)\<lparr>panicking := False, panic := None\<rparr>)
              in case (case p of None \<Rightarrow> None | Some q \<Rightarrow> payload_value q) of
                   Some v \<Rightarrow> (st', Inr v)
                 | None \<Rightarrow>
                     (st', Inl (PanicString (''unexpected panic type '' @ panicTypeName p
                                  @ '' in target call to recover()''))))
           else (st, Inr VNil)))"

section \<open>Built-ins\<close>

text \<open>
  The loop of the \<^verbatim>\<open>print\<close> and \<^verbatim>\<open>println\<close> case of \<^verbatim>\<open>callBuiltin\<close>, from argument
  number \<open>k\<close> on.
\<close>

fun print_args :: "host \<Rightarrow> bool \<Rightarrow> nat \<Rightarrow> value list \<Rightarrow> ssa_value list \<Rightarrow> string" where
  "print_args h ln k [] sargs = []"
| "print_args h ln k (arg # rest) sargs =
     (if 0 < k \<and> ln then '' '' else [])
     @ (if k < length sargs \<and> typeKind (ssa_Type (sargs ! k)) = KInterface
        then toInterface h arg else toString h arg)
     @ print_args h ln (Suc k) rest sargs"

text \<open>\<^verbatim>\<open>func callBuiltin\<close>, for \<^verbatim>\<open>print\<close>, \<^verbatim>\<open>println\<close>, \<^verbatim>\<open>panic\<close> and \<^verbatim>\<open>recover\<close>.\<close>

definition callBuiltin ::
  "host \<Rightarrow> Interp \<Rightarrow> state \<Rightarrow> nat option \<Rightarrow> builtin \<Rightarrow> value list \<Rightarrow> ssa_value list
     \<Rightarrow> state \<times> value res" where
  "callBuiltin h i st c b as sargs =
     (case b of
        B_print \<Rightarrow>
          (st\<lparr>CapturedOutput := CapturedOutput st @ print_args h False 0 as sargs\<rparr>, Inr VNil)
      | B_println \<Rightarrow>
          (st\<lparr>CapturedOutput := CapturedOutput st @ print_args h True 0 as sargs @ [CHR 0x0A]\<rparr>,
           Inr VNil)
      | B_panic \<Rightarrow>
          (case as of
             [] \<Rightarrow> (st, Inl (HostRuntimeError ''index out of range''))
           | a # _ \<Rightarrow> (st, Inl (TargetPanic a)))
      | B_recover \<Rightarrow> doRecover i st c)"

section \<open>The call engine\<close>

text \<open>
  The frame of \<^verbatim>\<open>callSSA\<close>: the register image of the compiled function, then a fresh
  cell for every local (one for the register, one for \<^verbatim>\<open>fr.env\<close>), the arguments and the
  free variables, at consecutive registers from \<open>k\<close> on.
\<close>

fun deref :: "gotype \<Rightarrow> gotype" where
  "deref t = (case Underlying t of TPointer el \<Rightarrow> el | _ \<Rightarrow> t)"

fun place_locals :: "state \<Rightarrow> frame \<Rightarrow> nat \<Rightarrow> ssa_value list \<Rightarrow> state \<times> frame res" where
  "place_locals st r k [] = (st, Inr r)"
| "place_locals st r k (l # ls) =
     (let (st1, c1) = alloc st (zero (deref (ssa_Type l)));
          (st2, c2) = alloc st1 (zero (deref (ssa_Type l)))
      in case setReg (r\<lparr>env := (env r)(l \<mapsto> c1)\<rparr>) k c2 of
           Inl e \<Rightarrow> (st2, Inl e)
         | Inr r' \<Rightarrow> place_locals st2 r' (Suc k) ls)"

fun place_args :: "frame \<Rightarrow> nat \<Rightarrow> ssa_value list \<Rightarrow> value list \<Rightarrow> frame res" where
  "place_args r k [] as = Inr r"
| "place_args r k (p # ps) [] = Inl (HostRuntimeError ''index out of range'')"
| "place_args r k (p # ps) (a # as) =
     bind (setReg (r\<lparr>env := (env r)(p \<mapsto> a)\<rparr>) k a) (\<lambda>r'. place_args r' (Suc k) ps as)"

definition new_frame ::
  "state \<Rightarrow> nat option \<Rightarrow> string \<Rightarrow> Function \<Rightarrow> ssa_function \<Rightarrow> value list \<Rightarrow> value list
     \<Rightarrow> state \<times> frame res" where
  "new_frame st c f p sf as fvs =
     (let r0 = (init_frame c f)\<lparr>stack := take (valueCount p) (values p)
                                         @ replicate (valueCount p - length (values p)) VNil,
                                 block := MainBlock p\<rparr>
      in case place_locals st r0 0 (Locals sf) of
           (st1, Inl e) \<Rightarrow> (st1, Inl e)
         | (st1, Inr r1) \<Rightarrow>
             (st1, bind (place_args r1 (length (Locals sf)) (Params sf) as) (\<lambda>r2.
                     place_args r2 (length (Locals sf) + length (Params sf)) (FreeVars sf) fvs)))"

text \<open>
  The engine. \<^verbatim>\<open>call\<close>, \<^verbatim>\<open>callSSA\<close>, \<^verbatim>\<open>runFrame\<close>, \<^verbatim>\<open>runDefers\<close> and \<^verbatim>\<open>runDefer\<close> call
  one another and loop, and a target program need not stop. So the engine is built by
  levels of fuel: \<open>engine\<close> holds the five functions that close a cycle, at one level;
  each function of the source is written once, over the engine \<open>E\<close> of the level below;
  level 0 has no result (\<open>None\<close>). A program that does not stop has no result at any
  level; a panic is a result, together with the state it leaves behind.
\<close>

record engine =
  e_call ::
    "state \<Rightarrow> nat option \<Rightarrow> value \<Rightarrow> value list \<Rightarrow> ssa_value list \<Rightarrow> (state \<times> value res) option"
  e_callLoop :: "state \<Rightarrow> nat \<Rightarrow> (state \<times> unit res) option"
  e_runFrame :: "state \<Rightarrow> nat \<Rightarrow> (state \<times> unit res) option"
  e_runInstrs :: "state \<Rightarrow> nat \<Rightarrow> exec list \<Rightarrow> (state \<times> continuation res) option"
  e_runDefers :: "state \<Rightarrow> nat \<Rightarrow> deferred list \<Rightarrow> state option"

text \<open>\<^verbatim>\<open>func (i *Interp) callSSA\<close>, with no native package installed.\<close>

definition callSSA ::
  "engine \<Rightarrow> Interp \<Rightarrow> state \<Rightarrow> nat option \<Rightarrow> string \<Rightarrow> value list \<Rightarrow> value list
     \<Rightarrow> (state \<times> value res) option" where
  "callSSA E i st c f as fvs =
     (case prog i f of
        None \<Rightarrow> Some (st, Inl (PanicString ''call of nil function''))
      | Some sf \<Rightarrow>
          if Parent sf = None \<and> ssaBlocks sf = [] then
            (if Name sf = ''init'' \<and> Params sf = [] then Some (st, Inr (VBool True))
             else Some (st, Inl (PanicString (''no code for function: '' @ f))))
          else
            (case funcs i f of
               None \<Rightarrow>
                 Some (st, Inl (HostRuntimeError
                                 ''invalid memory address or nil pointer dereference''))
             | Some p \<Rightarrow>
                 (case new_frame st c f p sf as fvs of
                    (st1, Inl e) \<Rightarrow> Some (st1, Inl e)
                  | (st1, Inr r) \<Rightarrow>
                      (case e_callLoop E (st1\<lparr>frames := frames st1 @ [r]\<rparr>)
                              (length (frames st1)) of
                         None \<Rightarrow> None
                       | Some (st2, Inl e) \<Rightarrow> Some (st2, Inl e)
                       | Some (st2, Inr _) \<Rightarrow>
                           Some (set_frame st2 (length (frames st1))
                                   ((frames st2 ! length (frames st1))
                                      \<lparr>env := Map.empty, block := None\<rparr>),
                                 Inr (result (frames st2 ! length (frames st1))))))))"

text \<open>
  \<^verbatim>\<open>func (i *Interp) call\<close>; closures and native functions are outside the model, so a
  callee is a function, a built-in, or something that cannot be called.
\<close>

definition call ::
  "engine \<Rightarrow> host \<Rightarrow> Interp \<Rightarrow> state \<Rightarrow> nat option \<Rightarrow> value \<Rightarrow> value list \<Rightarrow> ssa_value list
     \<Rightarrow> (state \<times> value res) option" where
  "call E h i st c fnv as sargs =
     (let c' = (case c of None \<Rightarrow> icaller st | Some _ \<Rightarrow> c);
          st1 = (case c of None \<Rightarrow> st | Some _ \<Rightarrow> st\<lparr>icaller := c\<rparr>)
      in case fnv of
           VFunction f \<Rightarrow> callSSA E i st1 c' f as []
         | VBuiltin b \<Rightarrow> Some (callBuiltin h i st1 c' b as sargs)
         | _ \<Rightarrow> Some (st1, Inl (PanicString (''cannot call '' @ typeName fnv))))"

text \<open>
  \<^verbatim>\<open>func (fr *frame) runDefer(d *deferred)\<close>: the call runs under a recovery of its own,
  and a panic of the call becomes the panic state of the frame.
\<close>

definition runDefer :: "engine \<Rightarrow> state \<Rightarrow> nat \<Rightarrow> deferred \<Rightarrow> state option" where
  "runDefer E st fp d =
     (case e_call E st (Some fp) (fn d) (args d) (ssaArgs d) of
        None \<Rightarrow> None
      | Some (st1, Inr _) \<Rightarrow> Some st1
      | Some (st1, Inl p) \<Rightarrow>
          Some (set_frame st1 fp ((frames st1 ! fp)\<lparr>panicking := True, panic := Some p\<rparr>)))"

text \<open>
  The loop \<^verbatim>\<open>for d := fr.defers; d != nil; d = d.tail\<close> of \<^verbatim>\<open>runDefers\<close>, over the chain as it
  stood when the loop began: the head, which was deferred last, runs first.
\<close>

definition runDefers :: "engine \<Rightarrow> state \<Rightarrow> nat \<Rightarrow> deferred list \<Rightarrow> state option" where
  "runDefers E st fp ds =
     (case ds of
        [] \<Rightarrow> Some st
      | d # tail \<Rightarrow>
          (case runDefer E st fp d of
             None \<Rightarrow> None
           | Some st1 \<Rightarrow> e_runDefers E st1 fp tail))"

text \<open>The successor \<open>k\<close> of the block of a frame: \<^verbatim>\<open>fr.block.Succs[k]\<close>.\<close>

definition block_succ :: "Interp \<Rightarrow> frame \<Rightarrow> nat \<Rightarrow> nat option" where
  "block_succ i r k =
     (case block r of
        None \<Rightarrow> None
      | Some b \<Rightarrow>
          (case funcs i (pfn r) of
             None \<Rightarrow> None
           | Some p \<Rightarrow>
               if b < length (Blocks p) \<and> k < length (Succs (Blocks p ! b))
               then Some (Succs (Blocks p ! b) ! k) else None))"

text \<open>
  One closure. \<open>XRunDefers\<close> is the closure of \<^verbatim>\<open>*ssa.RunDefers\<close>, the rest of
  \<^verbatim>\<open>func (fr *frame) runDefers\<close> after its loop: the chain is emptied, and a frame still in
  a state of panic panics again.
\<close>

definition runExec ::
  "engine \<Rightarrow> Interp \<Rightarrow> state \<Rightarrow> nat \<Rightarrow> exec \<Rightarrow> (state \<times> continuation res) option" where
  "runExec E i st fp e =
     (case e of
        XFrame f \<Rightarrow>
          (case f (heap st) (frames st ! fp) of
             Inl p \<Rightarrow> Some (st, Inl p)
           | Inr (r, k) \<Rightarrow> Some (set_frame st fp r, Inr k))
      | XStore ia iv \<Rightarrow>
          (case exec_Store ia iv (heap st) (frames st ! fp) of
             Inl p \<Rightarrow> Some (st, Inl p)
           | Inr hp \<Rightarrow> Some (st\<lparr>heap := hp\<rparr>, Inr kNext))
      | XRunDefers \<Rightarrow>
          (case e_runDefers E st fp (defers (frames st ! fp)) of
             None \<Rightarrow> None
           | Some st1 \<Rightarrow>
               (let r = frames st1 ! fp;
                    st2 = set_frame st1 fp (r\<lparr>defers := []\<rparr>)
                in case panic r of
                     Some p \<Rightarrow> if panicking r then Some (st2, Inl p) else Some (st2, Inr kNext)
                   | None \<Rightarrow> Some (st2, Inr kNext)))
      | XJump \<Rightarrow>
          (let r = frames st ! fp in
           case block_succ i r 0 of
             None \<Rightarrow> Some (st, Inl (HostRuntimeError ''index out of range''))
           | Some s \<Rightarrow>
               Some (set_frame st fp (r\<lparr>prevBlock := block r, block := Some s\<rparr>), Inr kJump))
      | XIf ic \<Rightarrow>
          (let r = frames st ! fp in
           case reg r ic of
             Inl p \<Rightarrow> Some (st, Inl p)
           | Inr v \<Rightarrow>
               (case v of
                  VBool cond \<Rightarrow>
                    (case block_succ i r (if cond then 0 else 1) of
                       None \<Rightarrow> Some (st, Inl (HostRuntimeError ''index out of range''))
                     | Some s \<Rightarrow>
                         Some (set_frame st fp (r\<lparr>prevBlock := block r, block := Some s\<rparr>),
                               Inr kJump))
                | _ \<Rightarrow> Some (st, Inl (assertion_failed v ''bool'')))))"

text \<open>The inner loop of \<^verbatim>\<open>runFrame\<close>, over the closures of a block.\<close>

definition runInstrs ::
  "engine \<Rightarrow> Interp \<Rightarrow> state \<Rightarrow> nat \<Rightarrow> exec list \<Rightarrow> (state \<times> continuation res) option" where
  "runInstrs E i st fp es =
     (case es of
        [] \<Rightarrow> Some (st, Inr kNext)
      | e # rest \<Rightarrow>
          (case runExec E i st fp e of
             None \<Rightarrow> None
           | Some (st1, Inl p) \<Rightarrow> Some (st1, Inl p)
           | Some (st1, Inr k) \<Rightarrow>
               if k = kNext then e_runInstrs E st1 fp rest else Some (st1, Inr k)))"

text \<open>
  \<^verbatim>\<open>func (i *Interp) runFrame(fr *frame)\<close>: the block of the frame is run; \<^verbatim>\<open>kReturn\<close>
  leaves the function, anything else goes round the outer loop. There is no recovery
  here: a panic of a closure leaves \<^verbatim>\<open>runFrame\<close> at once.
\<close>

definition runFrame :: "engine \<Rightarrow> Interp \<Rightarrow> state \<Rightarrow> nat \<Rightarrow> (state \<times> unit res) option" where
  "runFrame E i st fp =
     (case block (frames st ! fp) of
        None \<Rightarrow>
          Some (st, Inl (HostRuntimeError ''invalid memory address or nil pointer dereference''))
      | Some b \<Rightarrow>
          (case funcs i (pfn (frames st ! fp)) of
             None \<Rightarrow>
               Some (st, Inl (HostRuntimeError
                               ''invalid memory address or nil pointer dereference''))
           | Some p \<Rightarrow>
               if b < length (Blocks p) then
                 (case e_runInstrs E st fp (Instrs (Blocks p ! b)) of
                    None \<Rightarrow> None
                  | Some (st1, Inl e) \<Rightarrow> Some (st1, Inl e)
                  | Some (st1, Inr k) \<Rightarrow>
                      if k = kReturn then Some (st1, Inr ()) else e_runFrame E st1 fp)
               else Some (st, Inl (HostRuntimeError
                                    ''invalid memory address or nil pointer dereference''))))"

text \<open>The loop \<^verbatim>\<open>for fr.block != nil { i.runFrame(fr) }\<close> of \<^verbatim>\<open>callSSA\<close>.\<close>

definition callLoop :: "engine \<Rightarrow> state \<Rightarrow> nat \<Rightarrow> (state \<times> unit res) option" where
  "callLoop E st fp =
     (if block (frames st ! fp) = None then Some (st, Inr ())
      else (case e_runFrame E st fp of
              None \<Rightarrow> None
            | Some (st1, Inl e) \<Rightarrow> Some (st1, Inl e)
            | Some (st1, Inr _) \<Rightarrow> e_callLoop E st1 fp))"

text \<open>The engine with \<open>n\<close> units of fuel.\<close>

primrec eng :: "host \<Rightarrow> Interp \<Rightarrow> nat \<Rightarrow> engine" where
  "eng h i 0 =
     \<lparr>e_call = (\<lambda>st c fnv as sargs. None), e_callLoop = (\<lambda>st fp. None),
      e_runFrame = (\<lambda>st fp. None), e_runInstrs = (\<lambda>st fp es. None),
      e_runDefers = (\<lambda>st fp ds. None)\<rparr>"
| "eng h i (Suc n) =
     (let E = eng h i n in
      \<lparr>e_call = call E h i, e_callLoop = callLoop E,
       e_runFrame = runFrame E i, e_runInstrs = runInstrs E i,
       e_runDefers = runDefers E\<rparr>)"

section \<open>Run\<close>

text \<open>
  What \<^verbatim>\<open>Run\<close> gives the embedder: the two results, or the panic that leaves \<^verbatim>\<open>Run\<close>
  because the handler did not recover it. The error of \<^verbatim>\<open>fmt.Errorf\<close> is \<open>PanicOther\<close>.
\<close>

datatype run_result = Returned int "hpanic option" | Propagated hpanic

text \<open>
  The deferred handler of \<^verbatim>\<open>Run\<close>, entered with a panic \<open>p\<close> under way and the current
  \<^verbatim>\<open>exitCode\<close>. The cases of the type switch are tried in the order of the source.
\<close>

definition Run_handler :: "mode \<Rightarrow> int \<Rightarrow> hpanic \<Rightarrow> run_result" where
  "Run_handler m exitCode p =
     (if exitCode \<noteq> 2 \<or> DisableRecover m then Propagated p
      else case p of
             ExitPanic c \<Rightarrow> Returned c None
           | TargetPanic v \<Rightarrow> Returned exitCode (Some p)
           | RuntimeError s \<Rightarrow> Returned exitCode (Some p)
           | HostRuntimeError s \<Rightarrow> Returned exitCode (Some p)
           | PanicString s \<Rightarrow> Returned exitCode (Some (PlainError s))
           | PlainError s \<Rightarrow> Returned exitCode (Some p)
           | _ \<Rightarrow> Returned exitCode
                   (Some (PanicOther (''unexpected type: '' @ panicTypeName (Some p)))))"

text \<open>
  \<^verbatim>\<open>func (i *Interp) Run(entry string) (exitCode int, err error)\<close>, with \<open>n\<close> units of
  fuel for the call of the entry function.
\<close>

definition Run ::
  "nat \<Rightarrow> host \<Rightarrow> Interp \<Rightarrow> state \<Rightarrow> string \<Rightarrow> (state \<times> run_result) option" where
  "Run n h i st entry =
     (case mainpkg i entry of
        Some mainFn \<Rightarrow>
          (case e_call (eng h i n) st None (VFunction mainFn) [] [] of
             None \<Rightarrow> None
           | Some (st1, Inr _) \<Rightarrow> Some (st1, Returned 0 None)
           | Some (st1, Inl p) \<Rightarrow> Some (st1, Run_handler (imode i) 2 p))
      | None \<Rightarrow> Some (st, Returned 1 (Some (PanicOther (''no function '' @ entry)))))"

section \<open>Inputs for the examples\<close>

text \<open>
  A host for the concrete runs below: it prints strings as they are, never finds one type
  assignable to another, and its remaining operations are never reached by the examples.
\<close>

definition host0 :: host where
  "host0 =
     \<lparr>flops = \<lparr>fadd32 = (\<lambda>a b. a + b), fadd64 = (\<lambda>a b. a + b),
                f32to64 = ucast, f64to32 = ucast\<rparr>,
      kernels = (\<lambda>op x y. Inl (PanicString ''invalid binary op'')),
      AssignableTo = (\<lambda>a b. False),
      MissingMethod = (\<lambda>a b. None),
      differentScopes = (\<lambda>a b. False),
      Convert = (\<lambda>t v. v),
      toString = rString,
      toInterface = rString\<rparr>"

text \<open>The state before \<^verbatim>\<open>Run\<close>: no frame, an empty heap, nothing written.\<close>

definition init_state :: state where
  "init_state = \<lparr>frames = [], heap = Map.empty, nextAddr = 0, CapturedOutput = [], icaller = None\<rparr>"

definition mode0 :: mode where
  "mode0 = \<lparr>DisableRecover = False, EnableTracing = False, EnableDumpInstr = False\<rparr>"

text \<open>
  \<^verbatim>\<open>checkPackages\<close> over the functions of a main package (every function has a body or
  the check fails), and \<^verbatim>\<open>NewInterp\<close> for a package without globals, up to the point
  where it runs \<^verbatim>\<open>init\<close>.
\<close>

fun checkPackages ::
  "host \<Rightarrow> int \<Rightarrow> (string \<rightharpoonup> value) \<Rightarrow> ssa_function list \<Rightarrow> (string \<rightharpoonup> Function) res" where
  "checkPackages h mml globals [] = Inr Map.empty"
| "checkPackages h mml globals (f # fs) =
     (if ssaBlocks f = [] then Inl (PanicOther (Name f @ '': missing function body''))
      else bind (compile_function h mml globals f) (\<lambda>p.
           bind (checkPackages h mml globals fs) (\<lambda>m. Inr (m(Name f \<mapsto> p)))))"

definition NewInterp :: "host \<Rightarrow> int \<Rightarrow> ssa_function list \<Rightarrow> mode \<Rightarrow> Interp res" where
  "NewInterp h mml fs m =
     bind (checkPackages h mml Map.empty fs) (\<lambda>fu.
       Inr \<lparr>imode = m, iglobals = Map.empty,
            prog = map_of (map (\<lambda>f. (Name f, f)) fs),
            funcs = fu,
            mainpkg = map_of (map (\<lambda>f. (Name f, Name f)) fs)\<rparr>)"

text \<open>
  What an embedder sees of a package: \<^verbatim>\<open>NewInterp\<close>, then \<^verbatim>\<open>Run(entry)\<close> from the initial
  state with \<open>n\<close> units of fuel; the bytes printed and the result of \<^verbatim>\<open>Run\<close>.
\<close>

definition run_package ::
  "nat \<Rightarrow> host \<Rightarrow> int \<Rightarrow> ssa_function list \<Rightarrow> mode \<Rightarrow> string
     \<Rightarrow> (string \<times> run_result) option res" where
  "run_package n h mml fs m entry =
     bind (NewInterp h mml fs m) (\<lambda>i.
       Inr (map_option (\<lambda>sr. (CapturedOutput (fst sr), snd sr)) (Run n h i init_state entry)))"

text \<open>
  The programs of the examples, each a function \<^verbatim>\<open>main\<close> of one block:
  \<^item> \<open>main_returns\<close>: \<^verbatim>\<open>func main() {}\<close>;
  \<^item> \<open>main_panics\<close>: \<^verbatim>\<open>func main() { panic("boom") }\<close>;
  \<^item> \<open>main_defers_then_panics\<close>:
    \<^verbatim>\<open>func main() { defer print("A"); defer print("B"); defer print("C"); panic("boom") }\<close>;
  \<^item> \<open>main_defers_then_returns\<close>: the same three \<^verbatim>\<open>defer\<close>s, then the end of the function
    (\<^verbatim>\<open>RunDefers\<close> and \<^verbatim>\<open>Return\<close>).
\<close>

definition main_of :: "instr list \<Rightarrow> ssa_function" where
  "main_of is =
     \<lparr>Name = ''main'', Parent = None, Params = [], FreeVars = [], Locals = [],
      ssaBlocks = [\<lparr>bInstrs = is, bPreds = [], bSuccs = []\<rparr>], ssaRecover = None\<rparr>"

definition main_returns :: ssa_function where
  "main_returns = main_of [IReturn []]"

definition main_panics :: ssa_function where
  "main_panics = main_of [IPanic (SConst (VString ''boom''))]"

definition three_defers :: "instr list" where
  "three_defers =
     [IDefer (SBuiltin B_print) [SConst (VString ''A'')],
      IDefer (SBuiltin B_print) [SConst (VString ''B'')],
      IDefer (SBuiltin B_print) [SConst (VString ''C'')]]"

definition main_defers_then_panics :: ssa_function where
  "main_defers_then_panics = main_of (three_defers @ [IPanic (SConst (VString ''boom''))])"

definition main_defers_then_returns :: ssa_function where
  "main_defers_then_returns = main_of (three_defers @ [IRunDefers, IReturn []])"

text \<open>An interpreter with an empty program, and the one \<^verbatim>\<open>NewInterp\<close> gives for a package.\<close>

definition interp0 :: Interp where
  "interp0 =
     \<lparr>imode = mode0, iglobals = Map.empty, prog = Map.empty, funcs = Map.empty,
      mainpkg = Map.empty\<rparr>"

definition interp_for :: "ssa_function list \<Rightarrow> mode \<Rightarrow> Interp" where
  "interp_for fs m =
     (case NewInterp host0 (init_maxMemLen 64) fs m of Inr i \<Rightarrow> i | Inl e \<Rightarrow> interp0)"

text \<open>
  Two frames in the middle of \<^verbatim>\<open>runDefers\<close>: frame 0 is in a state of panic with payload
  \<open>p\<close>, frame 1 is the deferred function it called.
\<close>

definition recovering_state :: "hpanic \<Rightarrow> state" where
  "recovering_state p =
     init_state\<lparr>frames := [(init_frame None ''main'')\<lparr>panicking := True, panic := Some p\<rparr>,
                            init_frame (Some 0) ''main$1'']\<rparr>"

text \<open>\<^verbatim>\<open>func add(a, b T) T { return a + b }\<close>, for a type \<open>T\<close>.\<close>

definition add_function :: "gotype \<Rightarrow> ssa_function" where
  "add_function T =
     \<lparr>Name = ''add'', Parent = None,
      Params = [SParam ''a'' T, SParam ''b'' T], FreeVars = [], Locals = [],
      ssaBlocks = [\<lparr>bInstrs = [IBinOp ''t0'' T T_ADD (SParam ''a'' T) (SParam ''b'' T),
                                IReturn [SInstr ''t0'' T]],
                    bPreds = [], bSuccs = []\<rparr>],
      ssaRecover = None\<rparr>"

section \<open>Basic facts\<close>

lemma bind_Inl [simp]: "bind (Inl e) f = Inl e"
  by (simp add: bind_def)

lemma bind_Inr [simp]: "bind (Inr x) f = f x"
  by (simp add: bind_def)

section \<open>Slicing: the bounds checks\<close>

lemma showNat_head: "\<exists>c cs. showNat n = c # cs \<and> c \<in> set ''0123456789''"
proof (induction n rule: showNat.induct)
  case (1 n)
  show ?case
  proof (cases "n < 10")
    case True
    then have "''0123456789'' ! n \<in> set ''0123456789''"
      by (intro nth_mem) simp
    with True show ?thesis
      by (subst showNat.simps) simp
  next
    case False
    with 1 obtain c cs where "showNat (n div 10) = c # cs" "c \<in> set ''0123456789''"
      by blast
    with False show ?thesis
      by (subst showNat.simps) simp
  qed
qed

lemma showInt_head: "\<exists>c cs. showInt i = c # cs \<and> c \<in> set ''-0123456789''"
proof (cases "i < 0")
  case True
  then show ?thesis by (simp add: showInt_def)
next
  case False
  obtain c cs where "showNat (nat i) = c # cs" "c \<in> set ''0123456789''"
    using showNat_head by blast
  with False show ?thesis by (auto simp: showInt_def)
qed

lemma slice3_messages_distinct:
  "distinct
     [''slice bounds out of range [::'' @ showInt m @ '']'',
      ''slice bounds out of range [::'' @ showInt m @ ''] with capacity '' @ showInt c,
      ''slice bounds out of range [::'' @ showInt m @ ''] with length '' @ showInt c,
      ''slice bounds out of range [:'' @ showInt h @ '':]'',
      ''slice bounds out of range [:'' @ showInt h @ '':'' @ showInt m @ '']'',
      ''slice bounds out of range ['' @ showInt l @ ''::]'',
      ''slice bounds out of range ['' @ showInt l @ '':'' @ showInt h @ '':]'']"
proof -
  obtain cl csl where l: "showInt l = cl # csl" "cl \<in> set ''-0123456789''"
    using showInt_head by blast
  obtain ch csh where h: "showInt h = ch # csh" "ch \<in> set ''-0123456789''"
    using showInt_head by blast
  obtain cm csm where m: "showInt m = cm # csm" "cm \<in> set ''-0123456789''"
    using showInt_head by blast
  have a: "showInt m @ '']'' \<noteq> showInt m @ ''] with capacity '' @ showInt c"
          "showInt m @ '']'' \<noteq> showInt m @ ''] with length '' @ showInt c"
          "showInt m @ ''] with capacity '' @ showInt c \<noteq> showInt m @ ''] with length '' @ showInt c"
    by simp_all
  have b: "showInt h @ '':]'' \<noteq> showInt h @ '':'' @ showInt m @ '']''"
    using m by auto
  have c: "showInt l @ ''::]'' \<noteq> showInt l @ '':'' @ showInt h @ '':]''"
    using h by auto
  have d: "\<And>xs ys. CHR '':'' # xs \<noteq> showInt h @ ys" "\<And>xs ys. CHR '':'' # xs \<noteq> showInt l @ ys"
          "\<And>xs ys. showInt h @ ys \<noteq>  CHR '':'' # xs" "\<And>xs ys.  showInt l @ ys \<noteq> CHR '':'' # xs"
    using h l by auto
  have e: "showInt l \<noteq> []" "showInt h \<noteq> []" "showInt m \<noteq> []"
    using l h m by simp_all
  show ?thesis
    using a b c d e by simp
qed


lemma asInt_not_nil: "asInt a = Inr i \<Longrightarrow> a \<noteq> VNil"
  by auto

text \<open>
  Claim C5. Slicing a string with two indices succeeds exactly when
  \<open>0 \<le> lo \<le> hi \<le> len\<close> (the capacity of a string is its length) and then yields the
  substring; \<^verbatim>\<open>"hello"[0:3]\<close> is \<^verbatim>\<open>"hel"\<close>, and \<^verbatim>\<open>"hello"[10:11]\<close> panics with the
  \<^verbatim>\<open>runtimeError\<close> whose text is \<^verbatim>\<open>slice bounds out of range [:11] with length 5\<close>.
\<close>

theorem slice_string_two_index:
  assumes "\<not> is_Alloc iX"
    and "get globals fr iX = Inr (VString s)"
    and "get globals fr iLow = Inr (VInt lo)"
    and "get globals fr iHigh = Inr (VInt hi)"
  shows "(0 \<le> sint lo \<and> sint lo \<le> sint hi \<and> sint hi \<le> int (length s) \<longrightarrow>
            slice globals hp fr iX iLow iHigh SNil
              = Inr (VString (take (nat (sint hi - sint lo)) (drop (nat (sint lo)) s))))
       \<and> (\<not> (0 \<le> sint lo \<and> sint lo \<le> sint hi \<and> sint hi \<le> int (length s)) \<longrightarrow>
            (\<exists>msg. slice globals hp fr iX iLow iHigh SNil = Inl (RuntimeError msg)))
       \<and> (s = ''hello'' \<and> lo = 0 \<and> hi = 3 \<longrightarrow>
            slice globals hp fr iX iLow iHigh SNil = Inr (VString ''hel''))
       \<and> (s = ''hello'' \<and> lo = 10 \<and> hi = 11 \<longrightarrow>
            slice globals hp fr iX iLow iHigh SNil
              = Inl (RuntimeError ''slice bounds out of range [:11] with length 5''))"
proof -
  let ?r = "slice globals hp fr iX iLow iHigh SNil"
  have unfold: "?r = bind (slice_bounds False False KString (sint lo) (sint hi)
                             (int (length s)) (int (length s)))
                       (\<lambda>_. if sint lo = sint hi then rSlice (VString s) 0 0
                             else rSlice (VString s) (sint lo) (sint hi))"
    using assms by (simp add: slice_def Let_def del: rSlice.simps)
  have ok: "?r = Inr (VString (take (nat (sint hi - sint lo)) (drop (nat (sint lo)) s)))"
    if "0 \<le> sint lo" "sint lo \<le> sint hi" "sint hi \<le> int (length s)"
    using that by (simp add: unfold slice_bounds_def)
  have bad: "\<exists>msg. ?r = Inl (RuntimeError msg)"
    if "\<not> (0 \<le> sint lo \<and> sint lo \<le> sint hi \<and> sint hi \<le> int (length s))"
    using that by (auto simp: unfold slice_bounds_def)
  have hel: "?r = Inr (VString ''hel'')" if "s = ''hello''" "lo = 0" "hi = 3"
    using that by (simp add: unfold slice_bounds_def)
  have oob: "?r = Inl (RuntimeError ''slice bounds out of range [:11] with length 5'')"
    if "s = ''hello''" "lo = 10" "hi = 11"
    using that by (simp add: unfold slice_bounds_def showInt_def showNat.simps)
  from ok bad hel oob show ?thesis by blast
qed

theorem slice_string_two_index_witness:
  "slice Map.empty Map.empty (init_frame None ''main'')
      (SConst (VString ''hello'')) (SConst (VInt 0)) (SConst (VInt 3)) SNil
     = Inr (VString ''hel'')
   \<and> slice Map.empty Map.empty (init_frame None ''main'')
      (SConst (VString ''hello'')) (SConst (VInt 10)) (SConst (VInt 11)) SNil
     = Inl (RuntimeError ''slice bounds out of range [:11] with length 5'')"
  using slice_string_two_index [of "SConst (VString ''hello'')" Map.empty
          "init_frame None ''main''" "''hello''"
          "SConst (VInt 0)" 0 "SConst (VInt 3)" 3 Map.empty]
        slice_string_two_index [of "SConst (VString ''hello'')" Map.empty
          "init_frame None ''main''" "''hello''"
          "SConst (VInt 10)" 10 "SConst (VInt 11)" 11 Map.empty]
  by simp

text \<open>
  The claimed order of the three-index checks (\<open>lo\<close> first) is not the order of the code:
  with \<open>lo > hi\<close> and \<open>max > cap\<close> at once, the message is the one about \<open>max\<close>.
\<close>

theorem slice3_order_counterexample:
  "slice Map.empty Map.empty (init_frame None ''main'')
      (SConst (VSlice [VInt 1, VInt 2, VInt 3, VInt 4, VInt 5] 5))
      (SConst (VInt 3)) (SConst (VInt 2)) (SConst (VInt 10))
     = Inl (RuntimeError ''slice bounds out of range [::10] with capacity 5'')
   \<and> slice Map.empty Map.empty (init_frame None ''main'')
      (SConst (VSlice [VInt 1, VInt 2, VInt 3, VInt 4, VInt 5] 5))
      (SConst (VInt 3)) (SConst (VInt 2)) (SConst (VInt 10))
     \<noteq> Inl (RuntimeError ''slice bounds out of range [3:2:]'')"
  by (simp add: slice_def slice_bounds_def showInt_def showNat.simps)

text \<open>
  Claim C6, as amended. A three-index slice expression \<^verbatim>\<open>x[lo:hi:max]\<close> (\<^verbatim>\<open>lo\<close> may be
  left out and is then 0) on a slice or a pointer to an array, whose operand \<^verbatim>\<open>x\<close> is not
  itself an \<^verbatim>\<open>*ssa.Alloc\<close>, validates its bounds in the order \<open>0 \<le> max\<close>, \<open>max \<le> cap\<close>,
  \<open>0 \<le> hi\<close>, \<open>hi \<le> max\<close>, \<open>0 \<le> lo\<close>, \<open>lo \<le> hi\<close>; the first check that fails in this
  order decides the \<^verbatim>\<open>runtimeError\<close>, the messages of different checks are different, and
  when all hold the slice is taken. (An operand that is an \<^verbatim>\<open>*ssa.Alloc\<close> goes through the
  \<^verbatim>\<open>makeslice\<close> branch of \<^verbatim>\<open>slice\<close> instead; see \<open>slice3_alloc_operand\<close> below.)
\<close>

theorem slice3_bounds_order:
  assumes "\<not> is_Alloc iX"
    and "get globals fr iX = Inr x"
    and "get globals fr iLow = Inr lo" and "(if lo \<noteq> VNil then asInt lo else Inr 0) = Inr l"
    and "get globals fr iHigh = Inr hi" and "asInt hi = Inr h"
    and "get globals fr iMax = Inr mx" and "asInt mx = Inr m"
    and "v = (if kindOf x = KPtr then Elem hp x else x)"
    and "kindOf v \<in> {KSlice, KArray}"
    and "c = rCap v"
  shows "(m < 0 \<longrightarrow> slice globals hp fr iX iLow iHigh iMax
            = Inl (RuntimeError (''slice bounds out of range [::'' @ showInt m @ '']'')))
       \<and> (0 \<le> m \<and> c < m \<longrightarrow> slice globals hp fr iX iLow iHigh iMax
            = Inl (RuntimeError (''slice bounds out of range [::'' @ showInt m
                 @ (if kindOf v = KSlice then ''] with capacity '' else ''] with length '')
                 @ showInt c)))
       \<and> (0 \<le> m \<and> m \<le> c \<and> h < 0 \<longrightarrow> slice globals hp fr iX iLow iHigh iMax
            = Inl (RuntimeError (''slice bounds out of range [:'' @ showInt h @ '':]'')))
       \<and> (0 \<le> m \<and> m \<le> c \<and> 0 \<le> h \<and> m < h \<longrightarrow> slice globals hp fr iX iLow iHigh iMax
            = Inl (RuntimeError (''slice bounds out of range [:'' @ showInt h @ '':''
                 @ showInt m @ '']'')))
       \<and> (0 \<le> m \<and> m \<le> c \<and> 0 \<le> h \<and> h \<le> m \<and> l < 0 \<longrightarrow>
            slice globals hp fr iX iLow iHigh iMax
            = Inl (RuntimeError (''slice bounds out of range ['' @ showInt l @ ''::]'')))
       \<and> (0 \<le> m \<and> m \<le> c \<and> 0 \<le> h \<and> h \<le> m \<and> 0 \<le> l \<and> h < l \<longrightarrow>
            slice globals hp fr iX iLow iHigh iMax
            = Inl (RuntimeError (''slice bounds out of range ['' @ showInt l @ '':''
                 @ showInt h @ '':]'')))
       \<and> (0 \<le> l \<and> l \<le> h \<and> h \<le> m \<and> m \<le> c \<longrightarrow>
            slice globals hp fr iX iLow iHigh iMax = rSlice3 (kindOf x = KPtr) v l h m)
       \<and> distinct
           [''slice bounds out of range [::'' @ showInt m @ '']'',
            ''slice bounds out of range [::'' @ showInt m @ ''] with capacity '' @ showInt c,
            ''slice bounds out of range [::'' @ showInt m @ ''] with length '' @ showInt c,
            ''slice bounds out of range [:'' @ showInt h @ '':]'',
            ''slice bounds out of range [:'' @ showInt h @ '':'' @ showInt m @ '']'',
            ''slice bounds out of range ['' @ showInt l @ ''::]'',
            ''slice bounds out of range ['' @ showInt l @ '':'' @ showInt h @ '':]'']"
proof -
  let ?r = "slice globals hp fr iX iLow iHigh iMax"
  have nn: "hi \<noteq> VNil" "mx \<noteq> VNil"
    using assms(6,8) by auto
  have ks: "kindOf v \<noteq> KString"
    using assms(10) by auto
  have unfold: "?r = bind (slice_bounds False True (kindOf v) l h m c)
                       (\<lambda>_. rSlice3 (kindOf x = KPtr) v l h m)"
    using assms nn ks by (simp add: slice_def Let_def del: rSlice3.simps)
  show ?thesis
    unfolding unfold using slice3_messages_distinct [of m c h l]
    by (simp add: slice_bounds_def)
qed

theorem slice3_bounds_order_witness:
  "slice Map.empty Map.empty (init_frame None ''main'')
      (SConst (VSlice [VInt 1, VInt 2, VInt 3, VInt 4, VInt 5] 5))
      (SConst (VInt 1)) (SConst (VInt 2)) (SConst (VInt 4))
     = Inr (VSlice [VInt 2, VInt 3, VInt 4] 1)
   \<and> slice Map.empty Map.empty (init_frame None ''main'')
      (SConst (VSlice [VInt 1, VInt 2, VInt 3, VInt 4, VInt 5] 5))
      (SConst (VInt 4)) (SConst (VInt (-1))) (SConst (VInt 3))
     = Inl (RuntimeError ''slice bounds out of range [:-1:]'')"
proof -
  have neg: "showInt (- 1) = ''-1''"
    by (simp add: showInt_def showNat.simps)
  show ?thesis
    using slice3_bounds_order [of "SConst (VSlice [VInt 1, VInt 2, VInt 3, VInt 4, VInt 5] 5)"
            Map.empty "init_frame None ''main''" "VSlice [VInt 1, VInt 2, VInt 3, VInt 4, VInt 5] 5"
            "SConst (VInt 1)" "VInt 1" 1 "SConst (VInt 2)" "VInt 2" 2 "SConst (VInt 4)" "VInt 4" 4
            "VSlice [VInt 1, VInt 2, VInt 3, VInt 4, VInt 5] 5" Map.empty 5]
          slice3_bounds_order [of "SConst (VSlice [VInt 1, VInt 2, VInt 3, VInt 4, VInt 5] 5)"
            Map.empty "init_frame None ''main''" "VSlice [VInt 1, VInt 2, VInt 3, VInt 4, VInt 5] 5"
            "SConst (VInt 4)" "VInt 4" 4 "SConst (VInt (-1))" "VInt (-1)" "-1"
            "SConst (VInt 3)" "VInt 3" 3
            "VSlice [VInt 1, VInt 2, VInt 3, VInt 4, VInt 5] 5" Map.empty 5]
    by (simp add: neg)
qed

text \<open>
  When the operand is an \<^verbatim>\<open>*ssa.Alloc\<close> (a local array, \<^verbatim>\<open>new([5]int)\<close>), \<^verbatim>\<open>slice\<close> takes
  its \<^verbatim>\<open>makeslice\<close> branch, which tests \<open>hi\<close> only: on an array of 5 cells,
  \<^verbatim>\<open>p[3:2:10]\<close> passes the tests and ends in the panic of \<^verbatim>\<open>reflect\<close>, and \<^verbatim>\<open>p[1:7:3]\<close>
  ends in the \<^verbatim>\<open>runtimeError\<close> of \<^verbatim>\<open>makeslice\<close>.
\<close>

lemma slice3_alloc_operand:
  "slice Map.empty [0 \<mapsto> VArray [VInt 1, VInt 2, VInt 3, VInt 4, VInt 5]]
      ((init_frame None ''main'')
         \<lparr>env := [SAlloc ''p'' (TPointer (TArray 5 (TBasic KInt))) \<mapsto> VPtr (Some 0)]\<rparr>)
      (SAlloc ''p'' (TPointer (TArray 5 (TBasic KInt))))
      (SConst (VInt 3)) (SConst (VInt 2)) (SConst (VInt 10))
     = Inl (PanicString ''reflect.Value.Slice3: slice index out of bounds'')
   \<and> slice Map.empty [0 \<mapsto> VArray [VInt 1, VInt 2, VInt 3, VInt 4, VInt 5]]
      ((init_frame None ''main'')
         \<lparr>env := [SAlloc ''p'' (TPointer (TArray 5 (TBasic KInt))) \<mapsto> VPtr (Some 0)]\<rparr>)
      (SAlloc ''p'' (TPointer (TArray 5 (TBasic KInt))))
      (SConst (VInt 1)) (SConst (VInt 7)) (SConst (VInt 3))
     = Inl (RuntimeError ''makeslice: cap out of range'')"
  by (simp add: slice_def slice_bounds_def env_get_def)

section \<open>MakeSlice: the size checks\<close>






section \<open>Shifts: the negative count\<close>


lemma signed_kind_num:
  "(2 \<le> kind_num k \<and> kind_num k \<le> 6) = (k \<in> {KInt, KInt8, KInt16, KInt32, KInt64})"
  by (cases k) simp_all



section \<open>BinOp: the fast paths\<close>

lemma getIndex_fresh:
  "valueIndex p v = None \<Longrightarrow>
     getIndex globals p v =
       (p\<lparr>valueIndex := (valueIndex p)(v \<mapsto> valueCount p),
          valueCount := valueCount p + 1,
          values := values p @
            [case v of SConst c \<Rightarrow> c
             | SGlobal g \<Rightarrow> (case globals g of Some r \<Rightarrow> r | None \<Rightarrow> VNil)
             | _ \<Rightarrow> VNil]\<rparr>, valueCount p)"
  by (simp add: getIndex_def Let_def)

lemma getIndex_known: "valueIndex p v = Some k \<Longrightarrow> getIndex globals p v = (p, k)"
  by (simp add: getIndex_def)

text \<open>
  Claim C1. The claim asks that \<^verbatim>\<open>+\<close> on operands that are not plain \<^verbatim>\<open>int\<close>s reaches the
  kernel \<^verbatim>\<open>opADD\<close>. The closure compiled for \<^verbatim>\<open>a + b\<close> in \<^verbatim>\<open>func f(a, b string)\<close> is the
  \<^verbatim>\<open>int\<close> fast path and nothing else: on two strings, and on two \<^verbatim>\<open>int8\<close>, the host
  panics in the type assertion, where \<^verbatim>\<open>opADD\<close> has the result.
\<close>

theorem binop_add_no_fallthrough:
  "snd (makeInstr_BinOp h globals
          (getIndexes globals (new_Function ''f'')
             [SParam ''a'' (TBasic KString), SParam ''b'' (TBasic KString)])
          ''t0'' (TBasic KString) T_ADD
          (SParam ''a'' (TBasic KString)) (SParam ''b'' (TBasic KString)))
     = XFrame (\<lambda>hp. exec_ADD 2 0 1)
   \<and> exec_ADD 2 0 1 (r\<lparr>stack := [VString x, VString y, VNil]\<rparr>)
     = Inl (HostRuntimeError ''interface conversion: interface {} is string, not int'')
   \<and> opADD fl (VString x) (VString y) = Inr (VString (x @ y))
   \<and> exec_ADD 2 0 1 (r\<lparr>stack := [VInt8 a, VInt8 b, VNil]\<rparr>)
     = Inl (HostRuntimeError ''interface conversion: interface {} is int8, not int'')
   \<and> opADD fl (VInt8 a) (VInt8 b) = Inr (VInt8 (a + b))"
  by (simp add: makeInstr_BinOp_def new_Function_def getIndex_fresh getIndex_known
        exec_ADD_def reg_def assert_int_def assertion_failed_def numeral_2_eq_2)

text \<open>On plain \<^verbatim>\<open>int\<close>s the fast path and the kernel agree.\<close>

lemma exec_ADD_int:
  "exec_ADD 2 0 1 (r\<lparr>stack := [VInt a, VInt b, VNil]\<rparr>)
     = Inr (r\<lparr>stack := [VInt a, VInt b, VInt (a + b)]\<rparr>, kNext)
   \<and> opADD fl (VInt a) (VInt b) = Inr (VInt (a + b))"
  by (simp add: exec_ADD_def reg_def setReg_def assert_int_def)

section \<open>TypeAssert on nil\<close>

text \<open>
  Claim C8. On a nil interface the comma-ok form gives the zero value and \<open>false\<close>; the
  other form panics with a \<^verbatim>\<open>plainError\<close>, which has no method \<^verbatim>\<open>RuntimeError()\<close> and so is
  not a \<^verbatim>\<open>runtime.Error\<close>, where the claim has a \<^verbatim>\<open>RuntimeError\<close>.
\<close>

theorem typeAssert_nil:
  "typeAssert h xT aT False VNil
     = Inl (PlainError (''interface conversion: interface is nil, not '' @ typeString aT))
   \<and> \<not> is_runtime_Error
         (PlainError (''interface conversion: interface is nil, not '' @ typeString aT))
   \<and> typeAssert h xT aT True VNil = Inr (VTuple [zero aT, VBool False])"
  by (simp add: typeAssert_def)

text \<open>The sibling failure, a dynamic type that is not assignable, is a \<^verbatim>\<open>runtimeError\<close>.\<close>

lemma typeAssert_mismatch_is_runtime_Error:
  assumes "iv \<noteq> VNil" "aT \<noteq> typeOfValue iv" "\<not> AssignableTo h (typeOfValue iv) aT"
  shows "\<exists>msg. typeAssert h xT aT False iv = Inl (RuntimeError msg)"
  using assms by (auto simp: typeAssert_def Let_def split: option.splits)

section \<open>Store to a blank field\<close>

text \<open>
  Claim C10. A store to the field \<^verbatim>\<open>_\<close> of \<^verbatim>\<open>type T struct { _ int; x int }\<close> goes through
  a pointer to the defined type \<^verbatim>\<open>T\<close>; the test of the compiler asks for a struct type
  literal, so the store is compiled to a closure. Run on the registers as the call engine
  fills them (the address register was never written) the closure panics; run on an
  address register that holds a pointer it writes the cell.
\<close>

theorem store_blank_field_named_struct:
  "map_sum id snd
     (compile_instrs h mml globals (new_Function ''main'')
        [IStore (SFieldAddr ''t1''
                   (SAlloc ''t0'' (TPointer (TNamed ''main.T''
                        (TStruct [(''_'', TBasic KInt), (''x'', TBasic KInt)])))) 0)
                (SConst (VInt 1))])
     = Inr [XStore 0 1]
   \<and> exec_Store 0 1 hp (r\<lparr>stack := [VNil, VInt 1]\<rparr>) = Inl (ValueError ''reflect.Value.Elem'')
   \<and> exec_Store 0 1 [7 \<mapsto> VInt 0] (r\<lparr>stack := [VPtr (Some 7), VInt 1]\<rparr>)
     = Inr [7 \<mapsto> VInt 1]"
  by (simp add: makeInstr_def store_skipped_def new_Function_def getIndex_fresh getIndex_known
        exec_Store_def reg_def)

text \<open>Through a pointer to a struct type literal the store is left out of the block.\<close>

lemma store_blank_field_struct_literal:
  "map_sum id snd
     (compile_instrs h mml globals p
        [IStore (SFieldAddr n (SAlloc n' (TPointer (TStruct [(''_'', t), (''x'', t')]))) 0) v])
     = Inr []"
  by (simp add: makeInstr_def store_skipped_def)

section \<open>The engine, one level of fuel at a time\<close>

lemma e_call_eng [simp]:
  "e_call (eng h i (numeral k)) = call (eng h i (pred_numeral k)) h i"
  by (simp add: numeral_eq_Suc Let_def)

lemma e_callLoop_eng [simp]:
  "e_callLoop (eng h i (numeral k)) = callLoop (eng h i (pred_numeral k))"
  by (simp add: numeral_eq_Suc Let_def)

lemma e_runFrame_eng [simp]:
  "e_runFrame (eng h i (numeral k)) = runFrame (eng h i (pred_numeral k)) i"
  by (simp add: numeral_eq_Suc Let_def)

lemma e_runInstrs_eng [simp]:
  "e_runInstrs (eng h i (numeral k)) = runInstrs (eng h i (pred_numeral k)) i"
  by (simp add: numeral_eq_Suc Let_def)

lemma e_runDefers_eng [simp]:
  "e_runDefers (eng h i (numeral k)) = runDefers (eng h i (pred_numeral k))"
  by (simp add: numeral_eq_Suc Let_def)

text \<open>The definitions a concrete run unfolds.\<close>

lemmas compile_defs =
  NewInterp_def compile_function_def makeInstr_def new_Function_def main_of_def

lemmas engine_defs =
  Run_def call_def callSSA_def callLoop_def runFrame_def runInstrs_def runExec_def
  runDefers_def runDefer_def callBuiltin_def new_frame_def init_frame_def init_state_def
  set_frame_def Run_handler_def


section \<open>Recover\<close>

text \<open>
  While frame 0 unwinds with an \<^verbatim>\<open>exitPanic\<close> (the model of \<^verbatim>\<open>os.Exit\<close>), a call of
  \<^verbatim>\<open>recover()\<close> in the deferred function meets every condition of the claim, and yet does
  not return the payload: \<^verbatim>\<open>doRecover\<close> itself panics.
\<close>

theorem doRecover_exit_counterexample:
  "\<not> DisableRecover (imode interp0)
   \<and> \<not> panicking (frames (recovering_state (ExitPanic 3)) ! 1)
   \<and> caller (frames (recovering_state (ExitPanic 3)) ! 1) = Some 0
   \<and> panicking (frames (recovering_state (ExitPanic 3)) ! 0)
   \<and> snd (doRecover interp0 (recovering_state (ExitPanic 3)) (Some 1))
       = Inl (PanicString ''unexpected panic type gossa.exitPanic in target call to recover()'')"
  by (simp add: doRecover_def recovering_state_def init_state_def init_frame_def interp0_def
        mode0_def set_frame_def)

text \<open>
  Claim C2, as amended. For a call of \<^verbatim>\<open>recover()\<close> from a frame: when the calling frame is
  not panicking, its caller frame exists and is panicking, and \<^verbatim>\<open>DisableRecover\<close> is clear,
  the panic state of the caller's frame is cleared (\<open>panicking\<close> true before, false after;
  \<open>panic\<close> nil after) and no other frame changes; the payload is returned when it is a
  target panic (its value), a \<^verbatim>\<open>runtime.Error\<close>, a string, a \<^verbatim>\<open>plainError\<close> or a
  \<^verbatim>\<open>*reflect.ValueError\<close>, and for any other payload \<^verbatim>\<open>doRecover\<close> panics with
  \<^verbatim>\<open>unexpected panic type\<close>. In every other situation \<^verbatim>\<open>recover()\<close> returns nil and changes
  nothing.
\<close>

theorem doRecover_spec:
  "(\<not> DisableRecover (imode i) \<and> \<not> panicking (frames st ! fp)
      \<and> caller (frames st ! fp) = Some cc \<and> cc < length (frames st)
      \<and> panicking (frames st ! cc)
      \<and> panic (frames st ! cc) = Some q \<and> payload_value q = Some v
    \<longrightarrow> snd (doRecover i st (Some fp)) = Inr v
        \<and> \<not> panicking (frames (fst (doRecover i st (Some fp))) ! cc)
        \<and> panic (frames (fst (doRecover i st (Some fp))) ! cc) = None
        \<and> (\<forall>k. k \<noteq> cc \<longrightarrow> frames (fst (doRecover i st (Some fp))) ! k = frames st ! k))
   \<and> (DisableRecover (imode i) \<or> panicking (frames st ! fp)
        \<or> caller (frames st ! fp) = None
        \<or> (\<exists>c. caller (frames st ! fp) = Some c \<and> \<not> panicking (frames st ! c))
    \<longrightarrow> doRecover i st (Some fp) = (st, Inr VNil))
   \<and> (\<not> DisableRecover (imode i) \<and> \<not> panicking (frames st ! fp)
      \<and> caller (frames st ! fp) = Some cc \<and> cc < length (frames st)
      \<and> panicking (frames st ! cc)
      \<and> (case panic (frames st ! cc) of None \<Rightarrow> None | Some q \<Rightarrow> payload_value q) = None
    \<longrightarrow> snd (doRecover i st (Some fp))
          = Inl (PanicString (''unexpected panic type '' @ panicTypeName (panic (frames st ! cc))
                               @ '' in target call to recover()''))
        \<and> \<not> panicking (frames (fst (doRecover i st (Some fp))) ! cc)
        \<and> panic (frames (fst (doRecover i st (Some fp))) ! cc) = None)"
  by (auto simp: doRecover_def set_frame_def Let_def)

theorem doRecover_spec_witness:
  "snd (doRecover interp0 (recovering_state (TargetPanic (VString ''boom''))) (Some 1))
     = Inr (VString ''boom'')
   \<and> \<not> panicking
         (frames (fst (doRecover interp0 (recovering_state (TargetPanic (VString ''boom'')))
                         (Some 1))) ! 0)
   \<and> panic (frames (fst (doRecover interp0 (recovering_state (TargetPanic (VString ''boom'')))
                            (Some 1))) ! 0) = None
   \<and> doRecover interp0 (recovering_state (TargetPanic (VString ''boom''))) (Some 0)
     = (recovering_state (TargetPanic (VString ''boom'')), Inr VNil)"
  using doRecover_spec [of interp0 "recovering_state (TargetPanic (VString ''boom''))" 1 0
          "TargetPanic (VString ''boom'')" "VString ''boom''"]
        doRecover_spec [of interp0 "recovering_state (TargetPanic (VString ''boom''))" 0]
  by (simp add: recovering_state_def init_state_def init_frame_def interp0_def mode0_def)

section \<open>Run\<close>

text \<open>
  Claim C3, as amended. \<^verbatim>\<open>Run(entry)\<close> returns exit code 1 and an error when the main
  package has no function of that name; exit code 0 and no error when the call of the
  entry function returns normally; and, when \<^verbatim>\<open>DisableRecover\<close> is clear, exit code 2 with
  the panic as the error when the call ends in a target panic, and the code of an
  \<^verbatim>\<open>exitPanic\<close> when it ends in one. When \<^verbatim>\<open>DisableRecover\<close> is set, a panic of the call is
  not recovered and leaves \<^verbatim>\<open>Run\<close>.
\<close>

theorem Run_spec:
  "(mainpkg i entry = None \<longrightarrow>
      Run n h i st entry = Some (st, Returned 1 (Some (PanicOther (''no function '' @ entry)))))
   \<and> (mainpkg i entry = Some f
        \<and> e_call (eng h i n) st None (VFunction f) [] [] = Some (st1, Inr v) \<longrightarrow>
      Run n h i st entry = Some (st1, Returned 0 None))
   \<and> (mainpkg i entry = Some f \<and> \<not> DisableRecover (imode i)
        \<and> e_call (eng h i n) st None (VFunction f) [] [] = Some (st1, Inl (TargetPanic v)) \<longrightarrow>
      Run n h i st entry = Some (st1, Returned 2 (Some (TargetPanic v))))
   \<and> (mainpkg i entry = Some f \<and> \<not> DisableRecover (imode i)
        \<and> e_call (eng h i n) st None (VFunction f) [] [] = Some (st1, Inl (ExitPanic c)) \<longrightarrow>
      Run n h i st entry = Some (st1, Returned c None))
   \<and> (mainpkg i entry = Some f \<and> DisableRecover (imode i)
        \<and> e_call (eng h i n) st None (VFunction f) [] [] = Some (st1, Inl p) \<longrightarrow>
      Run n h i st entry = Some (st1, Propagated p))"
  by (simp add: Run_def Run_handler_def)

lemma call_main_returns:
  "\<exists>st1 v. e_call (eng host0 (interp_for [main_returns] mode0) 20) init_state None
              (VFunction ''main'') [] [] = Some (st1, Inr v)"
  by (simp add: interp_for_def compile_defs engine_defs main_returns_def exec_Return0_def)

lemma call_main_panics:
  "\<exists>st1. e_call (eng host0 (interp_for [main_panics] m) 20) init_state None
              (VFunction ''main'') [] [] = Some (st1, Inl (TargetPanic (VString ''boom'')))"
  by (simp add: interp_for_def compile_defs engine_defs main_panics_def exec_Panic_def)

text \<open>
  With \<^verbatim>\<open>DisableRecover\<close> set, \<^verbatim>\<open>func main() { panic("boom") }\<close> does not make \<^verbatim>\<open>Run\<close> return
  exit code 2: the panic goes on to the embedder.
\<close>

theorem Run_disabled_recover_counterexample:
  "map_option snd
     (Run 20 host0 (interp_for [main_panics] (mode0\<lparr>DisableRecover := True\<rparr>))
        init_state ''main'')
     = Some (Propagated (TargetPanic (VString ''boom'')))"
  by (simp add: interp_for_def compile_defs engine_defs main_panics_def exec_Panic_def mode0_def)

theorem Run_spec_witness:
  "map_option snd (Run 20 host0 (interp_for [main_returns] mode0) init_state ''main'')
     = Some (Returned 0 None)
   \<and> map_option snd (Run 20 host0 (interp_for [main_panics] mode0) init_state ''main'')
     = Some (Returned 2 (Some (TargetPanic (VString ''boom''))))
   \<and> map_option snd (Run 20 host0 (interp_for [main_panics] mode0) init_state ''nope'')
     = Some (Returned 1 (Some (PanicOther ''no function nope'')))"
proof -
  obtain s1 v where r: "e_call (eng host0 (interp_for [main_returns] mode0) 20) init_state None
              (VFunction ''main'') [] [] = Some (s1, Inr v)"
    using call_main_returns by blast
  obtain s2 where p: "e_call (eng host0 (interp_for [main_panics] mode0) 20) init_state None
              (VFunction ''main'') [] [] = Some (s2, Inl (TargetPanic (VString ''boom'')))"
    using call_main_panics by blast
  have m: "mainpkg (interp_for [main_returns] mode0) ''main'' = Some ''main''"
          "mainpkg (interp_for [main_panics] mode0) ''main'' = Some ''main''"
          "mainpkg (interp_for [main_panics] mode0) ''nope'' = None"
    by (simp_all add: interp_for_def compile_defs main_returns_def main_panics_def)
  have d: "\<not> DisableRecover (imode (interp_for [main_panics] mode0))"
    by (simp add: interp_for_def compile_defs main_panics_def mode0_def)
  show ?thesis
    using Run_spec [where i = "interp_for [main_returns] mode0" and entry = "''main''"
            and f = "''main''" and h = host0 and n = 20 and st = init_state and ?st1.0 = s1
            and v = v]
          Run_spec [where i = "interp_for [main_panics] mode0" and entry = "''main''"
            and f = "''main''" and h = host0 and n = 20 and st = init_state and ?st1.0 = s2
            and v = "VString ''boom''"]
          Run_spec [where i = "interp_for [main_panics] mode0" and entry = "''nope''"
            and h = host0 and n = 20 and st = init_state]
          r p m d
    by simp
qed

section \<open>Deferred calls\<close>

text \<open>
  Claim C4. \<^verbatim>\<open>RunDefers\<close> runs the chain in LIFO order: three deferred prints of \<^verbatim>\<open>A\<close>,
  \<^verbatim>\<open>B\<close>, \<^verbatim>\<open>C\<close> followed by a normal return print \<^verbatim>\<open>CBA\<close>. When the function panics
  instead, nothing is printed: \<^verbatim>\<open>runFrame\<close> has no recovery, the deferred calls never run,
  and \<^verbatim>\<open>Run\<close> returns exit code 2 with the target panic.
\<close>

theorem defers_not_run_on_panic:
  "run_package 40 host0 (init_maxMemLen 64) [main_defers_then_panics] mode0 ''main''
     = Inr (Some ([], Returned 2 (Some (TargetPanic (VString ''boom'')))))
   \<and> run_package 40 host0 (init_maxMemLen 64) [main_defers_then_returns] mode0 ''main''
     = Inr (Some (''CBA'', Returned 0 None))"
  by (simp add: run_package_def compile_defs engine_defs main_defers_then_panics_def
       main_defers_then_returns_def three_defers_def exec_Panic_def exec_Return0_def
       exec_Defer_def prepareCall_def mode0_def host0_def)

section \<open>BinOp: a call from end to end\<close>

text \<open>
  The function \<^verbatim>\<open>add\<close> compiled and called through the engine: on two \<^verbatim>\<open>int\<close>s it returns
  the sum, on two strings the call ends in the panic of the host.
\<close>

lemma add_function_calls:
  "map_option snd
     (e_call (eng host0 (interp_for [add_function (TBasic KInt)] mode0) 20) init_state None
        (VFunction ''add'') [VInt 1, VInt 2] [])
     = Some (Inr (VInt 3))
   \<and> map_option snd
     (e_call (eng host0 (interp_for [add_function (TBasic KString)] mode0) 20) init_state None
        (VFunction ''add'') [VString ''x'', VString ''y''] [])
     = Some (Inl (HostRuntimeError ''interface conversion: interface {} is string, not int''))"
  by (simp add: interp_for_def compile_defs engine_defs add_function_def makeInstr_BinOp_def
        getIndex_fresh getIndex_known exec_ADD_def exec_Return1_def reg_def setReg_def
        assert_int_def assertion_failed_def)

section \<open>The order of the deferred calls\<close>

text \<open>
  \<^verbatim>\<open>Defer\<close> puts the new call at the head of the chain, and \<^verbatim>\<open>runDefers\<close> runs the head
  before the rest: last deferred, first run.
\<close>

lemma exec_Defer_pushes:
  "prepareCall g r cValue cArgs = Inr (f, as) \<Longrightarrow>
     exec_Defer g cValue cArgs r
       = Inr (r\<lparr>defers := \<lparr>fn = f, args = as, ssaArgs = cArgs\<rparr> # defers r\<rparr>, kNext)"
  by (simp add: exec_Defer_def)

lemma runDefers_head_first:
  "e_runDefers (eng h i (Suc n)) st fp (d # ds)
     = (case runDefer (eng h i n) st fp d of
          None \<Rightarrow> None
        | Some st1 \<Rightarrow> e_runDefers (eng h i n) st1 fp ds)"
  by (simp add: Let_def runDefers_def)

section \<open>Further facts on shifts and recover\<close>

text \<open>
  A shift count that is not an \<^verbatim>\<open>*ssa.Convert\<close> of a signed integer is compiled without
  the test for a negative count, whatever the operand is.
\<close>

lemma shift_unchecked_shapes:
  assumes "\<And>cn cX ct. iY = SConvert cn cX ct \<Longrightarrow>
             typeKind (ssa_Type cX) \<notin> {KInt, KInt8, KInt16, KInt32, KInt64}"
  shows "makeInstr_shift globals op iv iX iY = XFrame (\<lambda>hp. exec_kernel globals op iv iX iY)"
proof (cases iY)
  case (SConvert cn cX ct)
  with assms have "\<not> (2 \<le> kind_num (typeKind (ssa_Type cX))
                       \<and> kind_num (typeKind (ssa_Type cX)) \<le> 6)"
    by (simp only: signed_kind_num) simp
  with SConvert show ?thesis by (auto simp: makeInstr_shift_def Let_def)
qed (simp_all add: makeInstr_shift_def)

text \<open>
  When \<^verbatim>\<open>doRecover\<close> clears the panic state, with the payload returned or not, the other
  frames, the heap and the output stay as they were.
\<close>

lemma doRecover_other_frames:
  "k \<noteq> the (caller (frames st ! fp)) \<Longrightarrow>
     frames (fst (doRecover i st (Some fp))) ! k = frames st ! k"
  by (auto simp: doRecover_def set_frame_def Let_def split: option.splits)

lemma doRecover_heap_output:
  "heap (fst (doRecover i st c)) = heap st
   \<and> CapturedOutput (fst (doRecover i st c)) = CapturedOutput st"
  by (auto simp: doRecover_def set_frame_def Let_def split: option.splits)

end
